theory Spec2Isabelle
  imports Main
begin

section \<open>The ups handler adapter (src/ups.go)\<close>

text \<open>
  The package turns a Go func into an \<open>http.Handler\<close>.  Two parts are modelled:
  the constructor \<open>UPSWithParameterAndConfig\<close>, which inspects the type of the func by
  reflection and panics on a func it cannot call, and \<open>ServeHTTP\<close>, which serves one
  request.

  Everything the package calls but does not define is a parameter of the model:
  the predicates of package \<open>reflect\<close>, the two protobuf codecs, \<open>mime.ParseMediaType\<close>
  and the response writer.  The calls that \<open>ServeHTTP\<close> makes on the outside world are
  recorded, in program order, in two logs.  \<open>hooks\<close> holds the calls of the optional
  callbacks of \<open>Config\<close>; a callback that is nil records nothing.  \<open>ops\<close> holds the
  calls on the request body, the media type parser, the pool, the codecs, the handler
  and the response writer.

  The model is sequential, one \<open>ServeHTTP\<close> at a time.  The panics of the model are
  those of the handler func, whose value is not nil, the one of a nil \<open>JSONMarshaler\<close>,
  the one of \<open>reflect.Value.IsNil\<close> on a result that cannot be nil, and the one of
  \<open>WriteHeader\<close> on a status code below 100 or above 999; the other library calls and
  the callbacks return normally.  A handler is a function of its arguments; it does not keep
  or change the request message.  Status codes are Go \<open>int\<close>s, byte slices and strings
  are \<open>string\<close>s.
\<close>

subsection \<open>Reflection\<close>

text \<open>
  \<open>reflect.Type\<close>.  The four package-level types of the source keep their names; every
  other type is known by its name.
\<close>

datatype rtype = errorType | messageType | contextType | requestType | namedType string

text \<open>
  The part of package \<open>reflect\<close> that the constructor uses.  \<open>Implements rf t u\<close> is
  \<open>t.Implements(u)\<close>, \<open>AssignableTo rf t u\<close> is \<open>t.AssignableTo(u)\<close>, and
  \<open>New_Elem rf t\<close> is the message that \<open>reflect.New(t.Elem())\<close> points to.
\<close>

record 'm reflect =
  Implements :: "rtype \<Rightarrow> rtype \<Rightarrow> bool"
  AssignableTo :: "rtype \<Rightarrow> rtype \<Rightarrow> bool"
  New_Elem :: "rtype \<Rightarrow> 'm"

datatype handlerType =
    messageHandlerType
  | contextHandlerType
  | requestHandlerType
  | paramHandlerType
  | contextParamHandlerType
  | requestParamHandlerType

subsection \<open>Requests, values and handlers\<close>

text \<open>
  \<open>r.Body\<close> as \<open>bytes.Buffer.ReadFrom\<close> sees it: all the bytes, or a read error.
\<close>

datatype body = BodyData string | BodyError string

record request =
  Method :: string
  URL :: string
  Header :: "(string \<times> string) list"
  Body :: body
  Context :: nat

definition Header_Get :: "(string \<times> string) list \<Rightarrow> string \<Rightarrow> string" where
  "Header_Get h k = (case map_of h k of None \<Rightarrow> [] | Some v \<Rightarrow> v)"

text \<open>
  An \<open>interface{}\<close> holding a bound parameter: nil, or a dynamic type with a value.
\<close>

type_synonym 'p iface = "(rtype \<times> 'p) option"

text \<open>The \<open>reflect.Value\<close>s that \<open>ServeHTTP\<close> passes to the handler.\<close>

datatype ('p, 'm) val =
    CtxVal nat
  | ReqVal request
  | ParamVal "'p iface"
  | MsgVal 'm

text \<open>
  The error a handler returns: it implements \<open>StatusCoder\<close> or it does not.
\<close>

datatype herror = PlainError string | StatusCoderError string int

text \<open>
  What \<open>ups.handler.Call(args)\<close> does: it panics with a value, or returns one result
  (the message) or two (the message and an error, \<open>None\<close> for nil).
\<close>

datatype 'm outcome = Panics string | Return1 'm | Return2 'm "herror option"

record ('p, 'm) func =
  In :: "rtype list"
  Out :: "rtype list"
  Call :: "('p, 'm) val list \<Rightarrow> 'm outcome"

subsection \<open>Configuration and logs\<close>

text \<open>
  A call of a callback of \<open>Config\<close>, with its arguments (the context is left out).
\<close>

datatype 'm hook =
    EvLogError string string
  | EvLogPanic string
  | EvLogStartRequest string string
  | EvLogEndRequest string string int
  | EvLogRequestMessage 'm
  | EvLogResponseMessage 'm
  | EvLogRequestBytes string
  | EvLogResponseBytes string
  | EvLogRequestJSON string
  | EvLogResponseJSON string
  | EvErrorResponse int

text \<open>
  A call on the outside world: \<open>reqBuffer.ReadFrom(r.Body)\<close>,
  \<open>mime.ParseMediaType\<close> with the header value, \<open>requestObjectPool.Get\<close> with the
  message it gave, the two \<open>Unmarshal\<close>s with the body, \<open>ups.handler.Call\<close> with the
  arguments, the two encoders with the message, \<open>Reset\<close> with the message it is called
  on, \<open>requestObjectPool.Put\<close> with the message put back, \<open>w.Header().Set\<close>,
  \<open>w.Write\<close> with the bytes it is given, and \<open>http.Error\<close> with its text and code.
\<close>

datatype ('p, 'm) op =
    ReadFrom
  | ParseMediaType string
  | PoolGet 'm
  | JsonUnmarshal string
  | ProtoUnmarshal string
  | CallHandler "('p, 'm) val list"
  | MarshalToString 'm
  | ProtoMarshal 'm
  | MessageReset 'm
  | PoolPut 'm
  | HeaderSet string string
  | Write string
  | HttpError string int

text \<open>
  \<open>Config\<close>.  \<open>JSONMarshaler\<close> is nil or carries \<open>MarshalToString\<close>; a logging callback
  is set or nil; \<open>ErrorResponse\<close> is nil or a function of the status code.
\<close>

record 'm Config =
  JSONMarshaler :: "('m \<Rightarrow> string + string) option"
  LogError :: bool
  LogPanic :: bool
  LogStartRequest :: bool
  LogEndRequest :: bool
  LogRequestMessage :: bool
  LogResponseMessage :: bool
  LogRequestBytes :: bool
  LogResponseBytes :: bool
  LogRequestJSON :: bool
  LogResponseJSON :: bool
  ErrorResponse :: "(int \<Rightarrow> string) option"

text \<open>
  The libraries behind a request: \<open>mime.ParseMediaType\<close> (\<open>Inl\<close> is its error), the
  two decoders, which fill the message they are given and may return an error, the
  binary encoder, the \<open>Reset\<close> method of a message, and the kind that package
  \<open>reflect\<close> gives for a type known by its name, as \<open>Kind.String()\<close> prints it.
\<close>

record 'm lib =
  mime_ParseMediaType :: "string \<Rightarrow> string + string"
  jsonpb_Unmarshal :: "string \<Rightarrow> 'm \<Rightarrow> 'm \<times> string option"
  proto_Unmarshal :: "string \<Rightarrow> 'm \<Rightarrow> 'm \<times> string option"
  proto_Marshal :: "'m \<Rightarrow> string + string"
  Reset :: "'m \<Rightarrow> 'm"
  reflect_Kind :: "string \<Rightarrow> string"

text \<open>
  \<open>sync.Pool\<close>: \<open>New\<close> builds a fresh message, \<open>items\<close> are the free ones.
\<close>

record 'm Pool =
  New :: 'm
  items :: "'m list"

definition Pool_Get :: "'m Pool \<Rightarrow> 'm \<times> 'm Pool" where
  "Pool_Get p = (case items p of [] \<Rightarrow> (New p, p) | x # xs \<Rightarrow> (x, p\<lparr>items := xs\<rparr>))"

definition Pool_Put :: "'m Pool \<Rightarrow> 'm \<Rightarrow> 'm Pool" where
  "Pool_Put p x = p\<lparr>items := x # items p\<rparr>"

record ('p, 'm) upsHandler =
  config :: "'m Config"
  handlerType :: handlerType
  handler :: "('p, 'm) func"
  parameter :: "'p iface"
  requestObjectPool :: "'m Pool"

abbreviation StatusOK :: int where "StatusOK \<equiv> 200"
abbreviation StatusMethodNotAllowed :: int where "StatusMethodNotAllowed \<equiv> 405"
abbreviation StatusUnsupportedMediaType :: int where "StatusUnsupportedMediaType \<equiv> 415"
abbreviation StatusInternalServerError :: int where "StatusInternalServerError \<equiv> 500"
abbreviation MethodPost :: string where "MethodPost \<equiv> ''POST''"

subsection \<open>The constructor\<close>

text \<open>
  \<open>UPSWithParameterAndConfig\<close> for a handler that is a func: \<open>In\<close> and \<open>Out\<close> are
  the parameter and result types that \<open>ty.In(i)\<close> and \<open>ty.Out(i)\<close> give.  \<open>Inl\<close>
  carries the value the constructor panics with.  The checks come in the order of the
  source: the results (lines 201 to 213), the parameters (217 to 246), the request
  type (248), the bound parameter (252).  A nil parameter has no type, and
  \<open>reflect.TypeOf(parameter).AssignableTo\<close> then panics in the runtime.  The \<open>New\<close>
  of the pool (line 256) is taken to return a message: the request type of a handler
  is a pointer to a message struct.
\<close>

definition check_returns :: "'m reflect \<Rightarrow> rtype list \<Rightarrow> string option" where
  "check_returns rf outs =
     (if length outs = 2 then
        (if \<not> Implements rf (outs ! 1) errorType then
           Some ''ups: invalid handler error return type''
         else if \<not> Implements rf (outs ! 0) messageType then
           Some ''ups: invalid handler message return type''
         else None)
      else if length outs = 1 then
        (if \<not> Implements rf (outs ! 0) messageType then
           Some ''ups: invalid handler message return type''
         else None)
      else Some ''ups: invalid handler return type'')"

text \<open>
  The switch on \<open>ty.NumIn()\<close>: the variant, \<open>reqType\<close> and \<open>paramType\<close> (\<open>None\<close> for nil).
\<close>

definition classify :: "rtype list \<Rightarrow> string + (handlerType \<times> rtype \<times> rtype option)" where
  "classify ins =
     (if length ins = 1 then Inr (messageHandlerType, ins ! 0, None)
      else if length ins = 2 then
        (if ins ! 0 = contextType then Inr (contextHandlerType, ins ! 1, None)
         else if ins ! 0 = requestType then Inr (requestHandlerType, ins ! 1, None)
         else Inr (paramHandlerType, ins ! 1, Some (ins ! 0)))
      else if length ins = 3 then
        (if ins ! 0 = contextType then Inr (contextParamHandlerType, ins ! 2, Some (ins ! 1))
         else if ins ! 0 = requestType then Inr (requestParamHandlerType, ins ! 2, Some (ins ! 1))
         else Inl ''ups: invalid handler parameter types'')
      else Inl ''ups: invalid handler parameter types'')"

definition check_parameter :: "'m reflect \<Rightarrow> 'p iface \<Rightarrow> rtype option \<Rightarrow> string option" where
  "check_parameter rf param paramType =
     (case paramType of
        None \<Rightarrow> None
      | Some pt \<Rightarrow>
          (case param of
             None \<Rightarrow> Some ''runtime error: invalid memory address or nil pointer dereference''
           | Some (t, v) \<Rightarrow>
               if \<not> AssignableTo rf t pt then
                 Some ''ups: param does not match param parameter type''
               else None))"

definition UPSWithParameterAndConfig ::
  "'m reflect \<Rightarrow> ('p, 'm) func \<Rightarrow> 'p iface \<Rightarrow> 'm Config \<Rightarrow> string + ('p, 'm) upsHandler" where
  "UPSWithParameterAndConfig rf h param cfg =
     (case check_returns rf (Out h) of
        Some e \<Rightarrow> Inl e
      | None \<Rightarrow>
          (case classify (In h) of
             Inl e \<Rightarrow> Inl e
           | Inr (ht, reqType, paramType) \<Rightarrow>
               if \<not> Implements rf reqType messageType then
                 Inl ''ups: invalid handler parameter type''
               else
                 (case check_parameter rf param paramType of
                    Some e \<Rightarrow> Inl e
                  | None \<Rightarrow>
                      Inr \<lparr>config = cfg, handlerType = ht, handler = h, parameter = param,
                           requestObjectPool = \<lparr>New = New_Elem rf reqType, items = []\<rparr>\<rparr>)))"

text \<open>
  The three shorter constructors.  \<open>DefaultConfig\<close> is a variable of the package, so
  it is an argument here.
\<close>

definition UPS :: "'m reflect \<Rightarrow> 'm Config \<Rightarrow> ('p, 'm) func \<Rightarrow> string + ('p, 'm) upsHandler" where
  "UPS rf defaultConfig h = UPSWithParameterAndConfig rf h None defaultConfig"

definition UPSWithConfig :: "'m reflect \<Rightarrow> ('p, 'm) func \<Rightarrow> 'm Config \<Rightarrow> string + ('p, 'm) upsHandler" where
  "UPSWithConfig rf h cfg = UPSWithParameterAndConfig rf h None cfg"

definition UPSWithParameter ::
  "'m reflect \<Rightarrow> 'm Config \<Rightarrow> ('p, 'm) func \<Rightarrow> 'p iface \<Rightarrow> string + ('p, 'm) upsHandler" where
  "UPSWithParameter rf defaultConfig h param = UPSWithParameterAndConfig rf h param defaultConfig"

subsection \<open>Serving one request\<close>

text \<open>
  The variables of \<open>ServeHTTP\<close> that its closures share (\<open>statusCode\<close>, \<open>resp\<close>),
  the pool of the handler, and the two logs.
\<close>

record ('p, 'm) frame =
  statusCode :: int
  resp :: string
  pool :: "'m Pool"
  hooks :: "'m hook list"
  ops :: "('p, 'm) op list"

text \<open>The logging methods: the callback is called when it is not nil.\<close>

definition logError :: "'m Config \<Rightarrow> string \<Rightarrow> string \<Rightarrow> 'm hook list" where
  "logError cfg tag err = (if LogError cfg then [EvLogError tag err] else [])"

definition logPanic :: "'m Config \<Rightarrow> string \<Rightarrow> 'm hook list" where
  "logPanic cfg err = (if LogPanic cfg then [EvLogPanic err] else [])"

definition logStartRequest :: "'m Config \<Rightarrow> string \<Rightarrow> string \<Rightarrow> 'm hook list" where
  "logStartRequest cfg method url = (if LogStartRequest cfg then [EvLogStartRequest method url] else [])"

definition logEndRequest :: "'m Config \<Rightarrow> string \<Rightarrow> string \<Rightarrow> int \<Rightarrow> 'm hook list" where
  "logEndRequest cfg method url code =
     (if LogEndRequest cfg then [EvLogEndRequest method url code] else [])"

definition logRequestMessage :: "'m Config \<Rightarrow> 'm \<Rightarrow> 'm hook list" where
  "logRequestMessage cfg req = (if LogRequestMessage cfg then [EvLogRequestMessage req] else [])"

definition logResponseMessage :: "'m Config \<Rightarrow> 'm \<Rightarrow> 'm hook list" where
  "logResponseMessage cfg rsp = (if LogResponseMessage cfg then [EvLogResponseMessage rsp] else [])"

definition logRequestBytes :: "'m Config \<Rightarrow> string \<Rightarrow> 'm hook list" where
  "logRequestBytes cfg req = (if LogRequestBytes cfg then [EvLogRequestBytes req] else [])"

definition logResponseBytes :: "'m Config \<Rightarrow> string \<Rightarrow> 'm hook list" where
  "logResponseBytes cfg rsp = (if LogResponseBytes cfg then [EvLogResponseBytes rsp] else [])"

definition logRequestJSON :: "'m Config \<Rightarrow> string \<Rightarrow> 'm hook list" where
  "logRequestJSON cfg req = (if LogRequestJSON cfg then [EvLogRequestJSON req] else [])"

definition logResponseJSON :: "'m Config \<Rightarrow> string \<Rightarrow> 'm hook list" where
  "logResponseJSON cfg rsp = (if LogResponseJSON cfg then [EvLogResponseJSON rsp] else [])"

text \<open>\<open>errorResponse\<close>: the text for a status, and the call of the callback it makes.\<close>

definition errorResponse :: "'m Config \<Rightarrow> int \<Rightarrow> string" where
  "errorResponse cfg code = (case ErrorResponse cfg of Some f \<Rightarrow> f code | None \<Rightarrow> [])"

definition errorResponse_call :: "'m Config \<Rightarrow> int \<Rightarrow> 'm hook list" where
  "errorResponse_call cfg code = (case ErrorResponse cfg of Some f \<Rightarrow> [EvErrorResponse code] | None \<Rightarrow> [])"

definition hook :: "'m hook list \<Rightarrow> ('p, 'm) frame \<Rightarrow> ('p, 'm) frame" where
  "hook evs f = f\<lparr>hooks := hooks f @ evs\<rparr>"

definition did :: "('p, 'm) op \<Rightarrow> ('p, 'm) frame \<Rightarrow> ('p, 'm) frame" where
  "did e f = f\<lparr>ops := ops f @ [e]\<rparr>"

text \<open>
  Lines 341 to 355: the arguments of the call, by the variant chosen at construction.
\<close>

definition call_args :: "('p, 'm) upsHandler \<Rightarrow> request \<Rightarrow> 'm \<Rightarrow> ('p, 'm) val list" where
  "call_args ups r arg =
     (case handlerType ups of
        messageHandlerType \<Rightarrow> [MsgVal arg]
      | contextHandlerType \<Rightarrow> [CtxVal (Context r), MsgVal arg]
      | requestHandlerType \<Rightarrow> [ReqVal r, MsgVal arg]
      | paramHandlerType \<Rightarrow> [ParamVal (parameter ups), MsgVal arg]
      | contextParamHandlerType \<Rightarrow> [CtxVal (Context r), ParamVal (parameter ups), MsgVal arg]
      | requestParamHandlerType \<Rightarrow> [ReqVal r, ParamVal (parameter ups), MsgVal arg])"

text \<open>
  Lines 366 to 387: the message the handler returned is logged and encoded.  The second
  component of the result is the value of a panic, if there is one.
\<close>

definition encode ::
  "'m lib \<Rightarrow> ('p, 'm) upsHandler \<Rightarrow> bool \<Rightarrow> 'm \<Rightarrow> ('p, 'm) frame \<Rightarrow> ('p, 'm) frame \<times> string option" where
  "encode lb ups json result f0 =
     (let f = hook (logResponseMessage (config ups) result) f0 in
      if json then
        (case JSONMarshaler (config ups) of
           None \<Rightarrow> (f, Some ''runtime error: invalid memory address or nil pointer dereference'')
         | Some marshalToString \<Rightarrow>
             (case marshalToString result of
                Inl err \<Rightarrow>
                  ((hook (logError (config ups) ''JSONMarshaler.MarshalToString'' err)
                      (did (MarshalToString result) f))
                     \<lparr>statusCode := StatusInternalServerError\<rparr>, None)
              | Inr response \<Rightarrow>
                  (did (HeaderSet ''Content-Type'' ''application/json'')
                     ((hook (logResponseJSON (config ups) response)
                         (did (MarshalToString result) f))
                        \<lparr>resp := response\<rparr>), None)))
      else
        (case proto_Marshal lb result of
           Inl err \<Rightarrow>
             ((hook (logError (config ups) ''proto.Marshal'' err)
                 (did (ProtoMarshal result) f))
                \<lparr>statusCode := StatusInternalServerError\<rparr>, None)
         | Inr response \<Rightarrow>
             (did (HeaderSet ''Content-Type'' ''application/octet-stream'')
                ((hook (logResponseBytes (config ups) response)
                    (did (ProtoMarshal result) f))
                   \<lparr>resp := response\<rparr>), None)))"

text \<open>
  \<open>Kind()\<close> of a type.  Of the four package-level types (lines 57 to 60), \<open>error\<close>,
  \<open>proto.Message\<close> and \<open>context.Context\<close> are interfaces and \<open>*http.Request\<close> is a
  pointer.
\<close>

definition Kind :: "'m lib \<Rightarrow> rtype \<Rightarrow> string" where
  "Kind lb t =
     (case t of
        errorType \<Rightarrow> ''interface''
      | messageType \<Rightarrow> ''interface''
      | contextType \<Rightarrow> ''interface''
      | requestType \<Rightarrow> ''ptr''
      | namedType n \<Rightarrow> reflect_Kind lb n)"

text \<open>
  \<open>results[1].IsNil()\<close> at line 358.  A func has two results when it has two result
  types, and the second result has the second of them.  \<open>reflect.Value.IsNil\<close> panics
  on a value whose kind is not one of the seven that have a nil, with a
  \<open>reflect.ValueError\<close> that prints as below.  The result is the value of that panic,
  if there is one.
\<close>

definition IsNil_panic :: "'m lib \<Rightarrow> ('p, 'm) func \<Rightarrow> string option" where
  "IsNil_panic lb h =
     (if length (Out h) = 2
         \<and> Kind lb (Out h ! 1) \<notin> set [''chan'', ''func'', ''interface'', ''map'', ''ptr'', ''slice'',
                                       ''unsafe.Pointer'']
      then Some (''reflect: call of reflect.Value.IsNil on '' @ Kind lb (Out h ! 1) @ '' Value'')
      else None)"

text \<open>
  Lines 341 to 387: the call of the handler and what follows from its results.  With
  two results, \<open>IsNil\<close> is called on the second whatever its value.
\<close>

definition invoke ::
  "'m lib \<Rightarrow> ('p, 'm) upsHandler \<Rightarrow> request \<Rightarrow> bool \<Rightarrow> 'm \<Rightarrow> ('p, 'm) frame \<Rightarrow> ('p, 'm) frame \<times> string option" where
  "invoke lb ups r json arg f0 =
     (let args = call_args ups r arg;
          f = did (CallHandler args) f0 in
      case Call (handler ups) args of
        Panics v \<Rightarrow> (f, Some v)
      | Return1 result \<Rightarrow> encode lb ups json result f
      | Return2 result e \<Rightarrow>
          (case IsNil_panic lb (handler ups) of
             Some v \<Rightarrow> (f, Some v)
           | None \<Rightarrow>
               (case e of
                  None \<Rightarrow> encode lb ups json result f
                | Some (StatusCoderError s code) \<Rightarrow> (f\<lparr>statusCode := code\<rparr>, None)
                | Some (PlainError s) \<Rightarrow> (f\<lparr>statusCode := StatusInternalServerError\<rparr>, None))))"

text \<open>
  Lines 324 to 339: the body is decoded into the pooled message.  The first component
  of the result is the message as the decoder left it.
\<close>

definition decode ::
  "'m lib \<Rightarrow> ('p, 'm) upsHandler \<Rightarrow> bool \<Rightarrow> string \<Rightarrow> 'm \<Rightarrow> ('p, 'm) frame \<Rightarrow> 'm \<times> ('p, 'm) frame \<times> bool" where
  "decode lb ups json req arg0 f0 =
     (if json then
        (let f = did (JsonUnmarshal req) (hook (logRequestJSON (config ups) req) f0) in
         case jsonpb_Unmarshal lb req arg0 of
           (arg, Some err) \<Rightarrow>
             (arg, (hook (logError (config ups) ''jsonpb.Unmarshal'' err) f)
                     \<lparr>statusCode := StatusInternalServerError\<rparr>, False)
         | (arg, None) \<Rightarrow> (arg, hook (logRequestMessage (config ups) arg) f, True))
      else
        (let f = did (ProtoUnmarshal req) (hook (logRequestBytes (config ups) req) f0) in
         case proto_Unmarshal lb req arg0 of
           (arg, Some err) \<Rightarrow>
             (arg, (hook (logError (config ups) ''proto.Unmarshal'' err) f)
                     \<lparr>statusCode := StatusInternalServerError\<rparr>, False)
         | (arg, None) \<Rightarrow> (arg, hook (logRequestMessage (config ups) arg) f, True)))"

text \<open>
  Lines 319 to 387: a message is taken from the pool, the body is decoded into it and
  the handler is called.  The deferred function of line 320 runs on every way out,
  a panic included: it resets the message and puts it back.
\<close>

definition pooled ::
  "'m lib \<Rightarrow> ('p, 'm) upsHandler \<Rightarrow> request \<Rightarrow> bool \<Rightarrow> string \<Rightarrow> ('p, 'm) frame \<Rightarrow> ('p, 'm) frame \<times> string option" where
  "pooled lb ups r json req f0 =
     (case Pool_Get (pool f0) of
        (arg0, p) \<Rightarrow>
          (let f = did (PoolGet arg0) (f0\<lparr>pool := p\<rparr>) in
           case decode lb ups json req arg0 f of
             (arg, f1, ok) \<Rightarrow>
               (case (if ok then invoke lb ups r json arg f1 else (f1, None)) of
                  (f2, pan) \<Rightarrow>
                    (let f3 = did (MessageReset arg) f2;
                         f4 = did (PoolPut (Reset lb arg)) (f3\<lparr>pool := Pool_Put (pool f3) (Reset lb arg)\<rparr>)
                     in (f4, pan)))))"

text \<open>
  Lines 298 to 317: the media type of the request decides the value of \<open>json\<close>, or the
  request is rejected with status 415; a parse error is logged first.
\<close>

datatype negotiation = Reject "string option" | Accept bool

definition negotiate :: "'m lib \<Rightarrow> 'm Config \<Rightarrow> string \<Rightarrow> negotiation" where
  "negotiate lb cfg header =
     (case mime_ParseMediaType lb header of
        Inl err \<Rightarrow> Reject (Some err)
      | Inr contentType \<Rightarrow>
          if contentType = ''application/json'' then
            (if JSONMarshaler cfg = None then Reject None else Accept True)
          else if contentType = ''application/octet-stream''
                  \<or> contentType = ''application/x-protobuf'' then Accept False
          else Reject None)"

text \<open>
  Lines 284 to 387: the body of the closure that \<open>ServeHTTP\<close> runs under \<open>recover\<close>.
  The body is read at line 291, before the media type is looked at.
\<close>

definition serve ::
  "'m lib \<Rightarrow> ('p, 'm) upsHandler \<Rightarrow> request \<Rightarrow> ('p, 'm) frame \<Rightarrow> ('p, 'm) frame \<times> string option" where
  "serve lb ups r f0 =
     (let f = hook (logStartRequest (config ups) (Method r) (URL r)) f0 in
      if Method r \<noteq> MethodPost then (f\<lparr>statusCode := StatusMethodNotAllowed\<rparr>, None)
      else
        (case Body r of
           BodyError err \<Rightarrow>
             ((hook (logError (config ups) ''req.ReadFrom'' err) (did ReadFrom f))
                \<lparr>statusCode := StatusInternalServerError\<rparr>, None)
         | BodyData req \<Rightarrow>
             (let ct = Header_Get (Header r) ''Content-Type'';
                  f1 = did (ParseMediaType ct) (did ReadFrom f) in
              case negotiate lb (config ups) ct of
                Reject (Some err) \<Rightarrow>
                  ((hook (logError (config ups) ''mime.ParseMediaType'' err) f1)
                     \<lparr>statusCode := StatusUnsupportedMediaType\<rparr>, None)
              | Reject None \<Rightarrow> (f1\<lparr>statusCode := StatusUnsupportedMediaType\<rparr>, None)
              | Accept json \<Rightarrow> pooled lb ups r json req f1)))"

text \<open>
  Lines 276 to 388: the closure with its deferred \<open>recover\<close>.  A panic is logged and
  turned into status 500.
\<close>

definition recovered ::
  "'m lib \<Rightarrow> ('p, 'm) upsHandler \<Rightarrow> request \<Rightarrow> ('p, 'm) frame \<Rightarrow> ('p, 'm) frame" where
  "recovered lb ups r f0 =
     (case serve lb ups r f0 of
        (f, None) \<Rightarrow> f
      | (f, Some err) \<Rightarrow>
          (hook (logPanic (config ups) err) f)\<lparr>statusCode := StatusInternalServerError\<rparr>)"

text \<open>
  \<open>http.ResponseWriter\<close>: what the \<open>k\<close>-th call of \<open>w.Write\<close> returns for the bytes it is
  given, the number of bytes written and the error.  \<open>w.Header().Set\<close> and \<open>http.Error\<close>
  are recorded in \<open>ops\<close>.
\<close>

type_synonym ResponseWriter = "nat \<Rightarrow> string \<Rightarrow> nat \<times> string option"

text \<open>
  A number in decimal, as \<open>%v\<close> prints an \<open>int\<close>.
\<close>

fun digits :: "nat \<Rightarrow> string" where
  "digits n = (if n < 10 then [''0123456789'' ! n] else digits (n div 10) @ [''0123456789'' ! (n mod 10)])"

definition Itoa :: "int \<Rightarrow> string" where
  "Itoa i = (if i < 0 then CHR ''-'' # digits (nat (- i)) else digits (nat i))"

text \<open>
  \<open>w.WriteHeader(code)\<close> as the response writers of \<open>net/http\<close> and \<open>httptest\<close> have
  it: it panics on a code below 100 or above 999.  The result is the value of the
  panic, if there is one.
\<close>

definition checkWriteHeaderCode :: "int \<Rightarrow> string option" where
  "checkWriteHeaderCode code =
     (if code < 100 \<or> 999 < code then Some (''invalid WriteHeader code '' @ Itoa code) else None)"

text \<open>
  \<open>http.Error(w, error, code)\<close>: the call is recorded; it panics where \<open>WriteHeader\<close>
  does.
\<close>

definition http_Error :: "string \<Rightarrow> int \<Rightarrow> ('p, 'm) frame \<Rightarrow> ('p, 'm) frame \<times> string option" where
  "http_Error text code f = (did (HttpError text code) f, checkWriteHeaderCode code)"

text \<open>
  Lines 391 to 400.  The loop ends when a write fails or takes all the bytes left;
  a writer that keeps taking less without an error keeps it running, and then the
  result is \<open>None\<close>.
\<close>

partial_function (option) write_loop ::
  "'m Config \<Rightarrow> ResponseWriter \<Rightarrow> nat \<Rightarrow> ('p, 'm) frame \<Rightarrow> ('p, 'm) frame option" where
  "write_loop cfg w k f =
     (case w k (resp f) of
        (n, Some err) \<Rightarrow> Some (hook (logError cfg ''w.Write'' err) (did (Write (resp f)) f))
      | (n, None) \<Rightarrow>
          if n \<ge> length (resp f) then Some (did (Write (resp f)) f)
          else write_loop cfg w (Suc k) ((did (Write (resp f)) f)\<lparr>resp := drop n (resp f)\<rparr>))"

definition frame0 :: "('p, 'm) upsHandler \<Rightarrow> ('p, 'm) frame" where
  "frame0 ups = \<lparr>statusCode = StatusOK, resp = [], pool = requestObjectPool ups, hooks = [], ops = []\<rparr>"

text \<open>
  \<open>ServeHTTP\<close>, lines 271 to 405.  The result is \<open>None\<close> when the write loop does not
  end.  Otherwise it is the frame with the value of a panic that leaves \<open>ServeHTTP\<close>,
  if there is one: the call of \<open>http.Error\<close> at line 402 is not under the \<open>recover\<close>
  of line 278, and after its panic line 404 is not reached.
\<close>

definition ServeHTTP ::
  "'m lib \<Rightarrow> ('p, 'm) upsHandler \<Rightarrow> ResponseWriter \<Rightarrow> request
     \<Rightarrow> (('p, 'm) frame \<times> string option) option" where
  "ServeHTTP lb ups w r =
     (let f = recovered lb ups r (frame0 ups) in
      case (if statusCode f = StatusOK then
              (case write_loop (config ups) w 0 f of None \<Rightarrow> None | Some f' \<Rightarrow> Some (f', None))
            else Some (http_Error (errorResponse (config ups) (statusCode f)) (statusCode f)
                         (hook (errorResponse_call (config ups) (statusCode f)) f))) of
        None \<Rightarrow> None
      | Some (f', Some v) \<Rightarrow> Some (f', Some v)
      | Some (f', None) \<Rightarrow>
          Some (hook (logEndRequest (config ups) (Method r) (URL r) (statusCode f')) f', None))"

text \<open>The handler as the next request finds it: the same, with the pool as it was left.\<close>

definition after :: "('p, 'm) upsHandler \<Rightarrow> ('p, 'm) frame \<Rightarrow> ('p, 'm) upsHandler" where
  "after ups f = ups\<lparr>requestObjectPool := pool f\<rparr>"

section \<open>What a dispatch shows\<close>

text \<open>
  The decoder that the value of \<open>json\<close> selects at lines 324 to 338.
\<close>

definition unmarshal :: "'m lib \<Rightarrow> bool \<Rightarrow> string \<Rightarrow> 'm \<Rightarrow> 'm \<times> string option" where
  "unmarshal lb json req arg0 =
     (if json then jsonpb_Unmarshal lb req arg0 else proto_Unmarshal lb req arg0)"

text \<open>
  A request gets as far as the pool when its method is POST, its body could be read
  and its media type was accepted.
\<close>

definition accepted :: "'m lib \<Rightarrow> ('p, 'm) upsHandler \<Rightarrow> request \<Rightarrow> bool" where
  "accepted lb ups r \<longleftrightarrow>
     Method r = MethodPost
     \<and> (case Body r of BodyData req \<Rightarrow> True | BodyError err \<Rightarrow> False)
     \<and> (case negotiate lb (config ups) (Header_Get (Header r) ''Content-Type'') of
           Accept json \<Rightarrow> True | Reject err \<Rightarrow> False)"

text \<open>
  The operations on the pool and on the response writer, picked out of \<open>ops\<close>.
\<close>

fun is_pool_op :: "('p, 'm) op \<Rightarrow> bool" where
  "is_pool_op (PoolGet m) = True"
| "is_pool_op (MessageReset m) = True"
| "is_pool_op (PoolPut m) = True"
| "is_pool_op _ = False"

fun is_writer_op :: "('p, 'm) op \<Rightarrow> bool" where
  "is_writer_op (HeaderSet k v) = True"
| "is_writer_op (Write b) = True"
| "is_writer_op (HttpError t c) = True"
| "is_writer_op _ = False"

abbreviation pool_ops :: "('p, 'm) op list \<Rightarrow> ('p, 'm) op list" where
  "pool_ops xs \<equiv> filter is_pool_op xs"

abbreviation writer_ops :: "('p, 'm) op list \<Rightarrow> ('p, 'm) op list" where
  "writer_ops xs \<equiv> filter is_writer_op xs"

text \<open>
  What the outside sees of a dispatch: the status, the bytes left to write, and the
  two logs.  The pool is left out.
\<close>

definition view :: "('p, 'm) frame \<Rightarrow> int \<times> string \<times> 'm hook list \<times> ('p, 'm) op list" where
  "view f = (statusCode f, resp f, hooks f, ops f)"

text \<open>
  The same of a dispatch that has ended, with the value of the panic that left it.
\<close>

definition outcome_view ::
  "('p, 'm) frame \<times> string option \<Rightarrow> (int \<times> string \<times> 'm hook list \<times> ('p, 'm) op list) \<times> string option" where
  "outcome_view x = (view (fst x), snd x)"

text \<open>
  The response as the recorder of \<open>httptest\<close> holds it: the status code, 200 until
  \<open>WriteHeader\<close> is called, the header, and the bytes written.
\<close>

record response =
  Code :: int
  HeaderMap :: "(string \<times> string) list"
  Bytes :: string

definition NewRecorder :: response where
  "NewRecorder = \<lparr>Code = 200, HeaderMap = [], Bytes = []\<rparr>"

text \<open>
  What the calls on the writer leave in the response, \<open>k\<close> being the number of calls
  of \<open>w.Write\<close> made before.  \<open>w.Header().Set\<close> puts the value in front of the header.
  A call of \<open>w.Write\<close> adds the bytes that the writer has taken, as many as it says.
  \<open>http.Error\<close> of \<open>net/http\<close> sets two headers, calls \<open>WriteHeader\<close> with the code
  and then prints the text with \<open>fmt.Fprintln\<close>, which is one call of \<open>w.Write\<close> with
  the text and a newline; when \<open>WriteHeader\<close> panics, nothing is written.
\<close>

fun reply :: "ResponseWriter \<Rightarrow> nat \<Rightarrow> ('p, 'm) op list \<Rightarrow> response \<Rightarrow> response" where
  "reply w k [] s = s"
| "reply w k (HeaderSet key v # xs) s = reply w k xs (s\<lparr>HeaderMap := (key, v) # HeaderMap s\<rparr>)"
| "reply w k (Write b # xs) s = reply w (Suc k) xs (s\<lparr>Bytes := Bytes s @ take (fst (w k b)) b\<rparr>)"
| "reply w k (HttpError text code # xs) s =
     (case checkWriteHeaderCode code of
        Some v \<Rightarrow>
          reply w k xs
            (s\<lparr>HeaderMap := (''X-Content-Type-Options'', ''nosniff'')
                              # (''Content-Type'', ''text/plain; charset=utf-8'') # HeaderMap s\<rparr>)
      | None \<Rightarrow>
          reply w (Suc k) xs
            (s\<lparr>Code := code,
               HeaderMap := (''X-Content-Type-Options'', ''nosniff'')
                              # (''Content-Type'', ''text/plain; charset=utf-8'') # HeaderMap s,
               Bytes := Bytes s @ take (fst (w k (text @ [CHR 0x0A]))) (text @ [CHR 0x0A])\<rparr>))"
| "reply w k (ReadFrom # xs) s = reply w k xs s"
| "reply w k (ParseMediaType ct # xs) s = reply w k xs s"
| "reply w k (PoolGet m # xs) s = reply w k xs s"
| "reply w k (JsonUnmarshal b # xs) s = reply w k xs s"
| "reply w k (ProtoUnmarshal b # xs) s = reply w k xs s"
| "reply w k (CallHandler args # xs) s = reply w k xs s"
| "reply w k (MarshalToString m # xs) s = reply w k xs s"
| "reply w k (ProtoMarshal m # xs) s = reply w k xs s"
| "reply w k (MessageReset m # xs) s = reply w k xs s"
| "reply w k (PoolPut m # xs) s = reply w k xs s"

definition answer :: "ResponseWriter \<Rightarrow> ('p, 'm) frame \<times> string option \<Rightarrow> response" where
  "answer w x = reply w 0 (ops (fst x)) NewRecorder"

text \<open>
  The hooks and the operations of a request up to the call of the handler.
\<close>

definition before_call_hooks :: "'m lib \<Rightarrow> ('p, 'm) upsHandler \<Rightarrow> request \<Rightarrow> bool \<Rightarrow> string \<Rightarrow> 'm \<Rightarrow> 'm hook list" where
  "before_call_hooks lb ups r json req arg =
     logStartRequest (config ups) (Method r) (URL r)
     @ (if json then logRequestJSON (config ups) req else logRequestBytes (config ups) req)
     @ logRequestMessage (config ups) arg"

definition before_call_ops :: "('p, 'm) upsHandler \<Rightarrow> request \<Rightarrow> bool \<Rightarrow> string \<Rightarrow> ('p, 'm) op list" where
  "before_call_ops ups r json req =
     [ReadFrom, ParseMediaType (Header_Get (Header r) ''Content-Type''),
      PoolGet (fst (Pool_Get (requestObjectPool ups))),
      if json then JsonUnmarshal req else ProtoUnmarshal req]"

text \<open>
  The operations that \<open>ServeHTTP\<close> can make once the body has been decoded with the
  codec that \<open>json\<close> names: the call, the encoder and the header of that codec, the
  release of the message, and the writes.
\<close>

fun late_op :: "bool \<Rightarrow> ('p, 'm) op \<Rightarrow> bool" where
  "late_op json (CallHandler args) = True"
| "late_op json (MarshalToString m) = json"
| "late_op json (ProtoMarshal m) = (\<not> json)"
| "late_op json (HeaderSet k v) =
     (k = ''Content-Type'' \<and> v = (if json then ''application/json'' else ''application/octet-stream''))"
| "late_op json (MessageReset m) = True"
| "late_op json (PoolPut m) = True"
| "late_op json (Write b) = True"
| "late_op json (HttpError t c) = True"
| "late_op json ReadFrom = False"
| "late_op json (ParseMediaType ct) = False"
| "late_op json (PoolGet m) = False"
| "late_op json (JsonUnmarshal b) = False"
| "late_op json (ProtoUnmarshal b) = False"

section \<open>The handlers and requests of the package's test\<close>

text \<open>
  \<open>TestHello\<close> serves a request message with a name and answers with a text.  The
  codecs are stand-ins that know this one shape: the JSON object with the one field,
  and the wire format of a message with one string field (tag \<open>0x0A\<close>, length,
  bytes).  The media type parser gives back the header value, and fails on the empty
  one.  The writer is the recorder of \<open>httptest\<close>, which takes every byte.  The kinds
  are those of the types of the test: \<open>testError\<close> is declared as an \<open>int\<close>, the
  messages are pointers.
\<close>

datatype hello = HelloRequest string | HelloResponse string | NilHello

definition json_name :: "string \<Rightarrow> string option" where
  \<open>json_name s =
     (if 11 \<le> length s \<and> take 9 s = ''{"name":"'' \<and> drop (length s - 2) s = ''"}''
      then Some (take (length s - 11) (drop 9 s)) else None)\<close>

definition wire_name :: "string \<Rightarrow> string option" where
  "wire_name s =
     (case s of
        [] \<Rightarrow> Some []
      | c # cs \<Rightarrow>
          (case cs of
             [] \<Rightarrow> None
           | l # rest \<Rightarrow> if c = CHR 0x0A \<and> of_char l = length rest then Some rest else None))"

definition hello_json :: "hello \<Rightarrow> string + string" where
  \<open>hello_json m =
     (case m of
        HelloResponse t \<Rightarrow> Inr (''{"text":"'' @ t @ ''"}'')
      | HelloRequest n \<Rightarrow> Inr (''{"name":"'' @ n @ ''"}'')
      | NilHello \<Rightarrow> Inl ''Marshal called with nil'')\<close>

definition hello_wire :: "hello \<Rightarrow> string + string" where
  "hello_wire m =
     (case m of
        HelloResponse t \<Rightarrow> Inr (CHR 0x0A # char_of (length t) # t)
      | HelloRequest n \<Rightarrow> Inr (CHR 0x0A # char_of (length n) # n)
      | NilHello \<Rightarrow> Inl ''proto: Marshal called with nil'')"

definition hello_lib :: "hello lib" where
  "hello_lib =
     \<lparr>mime_ParseMediaType = (\<lambda>s. if s = [] then Inl ''mime: no media type'' else Inr s),
      jsonpb_Unmarshal = (\<lambda>b m. case json_name b of
                                   Some n \<Rightarrow> (HelloRequest n, None)
                                 | None \<Rightarrow> (m, Some ''invalid character'')),
      proto_Unmarshal = (\<lambda>b m. case wire_name b of
                                  Some n \<Rightarrow> (HelloRequest n, None)
                                | None \<Rightarrow> (m, Some ''proto: illegal wireType'')),
      proto_Marshal = hello_wire,
      Reset = (\<lambda>m. HelloRequest []),
      reflect_Kind = (\<lambda>n. if n = ''ups.testError'' \<or> n = ''int'' then ''int'' else ''ptr'')\<rparr>"

definition DefaultConfig :: "hello Config" where
  "DefaultConfig =
     \<lparr>JSONMarshaler = Some hello_json, LogError = True, LogPanic = True, LogStartRequest = True,
      LogEndRequest = True, LogRequestMessage = True, LogResponseMessage = True,
      LogRequestBytes = True, LogResponseBytes = True, LogRequestJSON = True,
      LogResponseJSON = True, ErrorResponse = None\<rparr>"

definition testingups_reflect :: "hello reflect" where
  "testingups_reflect =
     \<lparr>Implements = (\<lambda>t u.
        (u = messageType \<and> (t = namedType ''*testingups.HelloRequest''
                             \<or> t = namedType ''*testingups.HelloResponse''))
        \<or> (u = errorType \<and> (t = errorType \<or> t = namedType ''ups.testError''))),
      AssignableTo = (\<lambda>t u. t = u),
      New_Elem = (\<lambda>t. HelloRequest [])\<rparr>"

text \<open>
  The funcs of the test: \<open>handler\<close>, which panics on the name \<open>panic\<close>;
  \<open>handlerError\<close>, which returns a plain error, an error with a status code, or a
  message, and here also a \<open>testError\<close> with the status 200 and one with 1000;
  \<open>handlerContextParam\<close>; a func like \<open>handlerError\<close> whose second result is declared
  as \<open>testError\<close> and not as \<open>error\<close>; and a func with no result, which no
  constructor accepts.  The handlers are what the constructor builds from them.
\<close>

definition hello_func :: "(int, hello) func" where
  "hello_func =
     \<lparr>In = [namedType ''*testingups.HelloRequest''],
      Out = [namedType ''*testingups.HelloResponse''],
      Call = (\<lambda>args. case args of
                [MsgVal (HelloRequest name)] \<Rightarrow>
                  if name = ''panic'' then Panics name
                  else Return1 (HelloResponse (''Hello, '' @ name @ ''!''))
              | _ \<Rightarrow> Panics ''reflect: Call with wrong arguments'')\<rparr>"

definition error_func :: "(int, hello) func" where
  "error_func =
     \<lparr>In = [namedType ''*testingups.HelloRequest''],
      Out = [namedType ''*testingups.HelloResponse'', errorType],
      Call = (\<lambda>args. case args of
                [MsgVal (HelloRequest name)] \<Rightarrow>
                  if name = ''Error'' then Return2 NilHello (Some (PlainError ''error''))
                  else if name = ''Teapot'' then Return2 NilHello (Some (StatusCoderError ''418'' 418))
                  else if name = ''OK'' then Return2 NilHello (Some (StatusCoderError ''200'' 200))
                  else if name = ''1000'' then Return2 NilHello (Some (StatusCoderError ''1000'' 1000))
                  else Return2 (HelloResponse (''Error, '' @ name @ ''!'')) None
              | _ \<Rightarrow> Panics ''reflect: Call with wrong arguments'')\<rparr>"

definition test_error_func :: "(int, hello) func" where
  "test_error_func =
     \<lparr>In = [namedType ''*testingups.HelloRequest''],
      Out = [namedType ''*testingups.HelloResponse'', namedType ''ups.testError''],
      Call = (\<lambda>args. case args of
                [MsgVal (HelloRequest name)] \<Rightarrow>
                  if name = ''Teapot'' then Return2 NilHello (Some (StatusCoderError ''418'' 418))
                  else Return2 NilHello (Some (StatusCoderError ''200'' 200))
              | _ \<Rightarrow> Panics ''reflect: Call with wrong arguments'')\<rparr>"

definition context_param_func :: "(int, hello) func" where
  "context_param_func =
     \<lparr>In = [contextType, namedType ''int'', namedType ''*testingups.HelloRequest''],
      Out = [namedType ''*testingups.HelloResponse''],
      Call = (\<lambda>args. case args of
                [CtxVal c, ParamVal p, MsgVal (HelloRequest name)] \<Rightarrow>
                  Return1 (HelloResponse (''ContextParameter, '' @ name @ ''!''))
              | _ \<Rightarrow> Panics ''reflect: Call with wrong arguments'')\<rparr>"

definition no_result_func :: "(int, hello) func" where
  "no_result_func =
     \<lparr>In = [namedType ''*testingups.HelloRequest''], Out = [],
      Call = (\<lambda>args. Panics ''reflect: Call with wrong arguments'')\<rparr>"

definition hello_handler :: "(int, hello) upsHandler" where
  "hello_handler =
     \<lparr>config = DefaultConfig, handlerType = messageHandlerType, handler = hello_func,
      parameter = None, requestObjectPool = \<lparr>New = HelloRequest [], items = []\<rparr>\<rparr>"

definition error_handler :: "(int, hello) upsHandler" where
  "error_handler =
     \<lparr>config = DefaultConfig, handlerType = messageHandlerType, handler = error_func,
      parameter = None, requestObjectPool = \<lparr>New = HelloRequest [], items = []\<rparr>\<rparr>"

definition test_error_handler :: "(int, hello) upsHandler" where
  "test_error_handler =
     \<lparr>config = DefaultConfig, handlerType = messageHandlerType, handler = test_error_func,
      parameter = None, requestObjectPool = \<lparr>New = HelloRequest [], items = []\<rparr>\<rparr>"

definition context_param_handler :: "(int, hello) upsHandler" where
  "context_param_handler =
     \<lparr>config = DefaultConfig, handlerType = contextParamHandlerType, handler = context_param_func,
      parameter = Some (namedType ''int'', 1),
      requestObjectPool = \<lparr>New = HelloRequest [], items = []\<rparr>\<rparr>"

definition recorder :: ResponseWriter where
  "recorder k b = (length b, None)"

text \<open>
  The requests: the ones of the test, and a POST whose body cannot be read.
\<close>

definition post :: "string \<Rightarrow> string \<Rightarrow> request" where
  "post content_type b =
     \<lparr>Method = ''POST'', URL = ''/hello'', Header = [(''Content-Type'', content_type)],
      Body = BodyData b, Context = 0\<rparr>"

definition json_request :: request where
  \<open>json_request = post ''application/json'' ''{"name":"World"}''\<close>

definition protobuf_request :: request where
  "protobuf_request = post ''application/octet-stream'' (CHR 0x0A # CHR 0x05 # ''World'')"

definition panic_request :: request where
  "panic_request = post ''application/octet-stream'' (CHR 0x0A # CHR 0x05 # ''panic'')"

definition teapot_request :: request where
  \<open>teapot_request = post ''application/json'' ''{"name":"Teapot"}''\<close>

definition ok_error_request :: request where
  \<open>ok_error_request = post ''application/json'' ''{"name":"OK"}''\<close>

definition thousand_request :: request where
  \<open>thousand_request = post ''application/json'' ''{"name":"1000"}''\<close>

definition text_plain_request :: request where
  "text_plain_request = post ''text/plain'' ''bad request''"

definition get_request :: request where
  "get_request = \<lparr>Method = ''GET'', URL = ''/hello'', Header = [], Body = BodyData [], Context = 0\<rparr>"

definition broken_body_request :: request where
  "broken_body_request =
     \<lparr>Method = ''POST'', URL = ''/hello'', Header = [(''Content-Type'', ''text/plain'')],
      Body = BodyError ''unexpected EOF'', Context = 0\<rparr>"

section \<open>Lemmas\<close>

subsection \<open>Frames\<close>

lemma hook_fields [simp]:
  "statusCode (hook e f) = statusCode f" "resp (hook e f) = resp f" "pool (hook e f) = pool f"
  "hooks (hook e f) = hooks f @ e" "ops (hook e f) = ops f"
  by (simp_all add: hook_def)

lemma did_fields [simp]:
  "statusCode (did x f) = statusCode f" "resp (did x f) = resp f" "pool (did x f) = pool f"
  "hooks (did x f) = hooks f" "ops (did x f) = ops f @ [x]"
  by (simp_all add: did_def)

lemma frame0_fields [simp]:
  "statusCode (frame0 ups) = 200" "resp (frame0 ups) = []" "pool (frame0 ups) = requestObjectPool ups"
  "hooks (frame0 ups) = []" "ops (frame0 ups) = []"
  by (simp_all add: frame0_def)

lemma Pool_Get_Put [simp]: "fst (Pool_Get (Pool_Put q x)) = x"
  by (simp add: Pool_Get_def Pool_Put_def)

subsection \<open>The write loop\<close>

text \<open>
  The loop of lines 391 to 400 ends after one call when the writer fails or takes all
  it is given.  When it ends, it has changed neither the status nor the pool, and it
  has only added writes.
\<close>

lemma write_loop_full:
  "w k (resp f) = (n, None) \<Longrightarrow> length (resp f) \<le> n \<Longrightarrow>
     write_loop cfg w k f = Some (did (Write (resp f)) f)"
  by (subst write_loop.simps) simp


lemma write_loop_empty:
  "resp f = [] \<Longrightarrow>
     \<exists>g. write_loop cfg w k f = Some g \<and> statusCode g = statusCode f \<and> resp g = []
       \<and> pool g = pool f \<and> ops g = ops f @ [Write []]
       \<and> (hooks g = hooks f \<or> (\<exists>e. hooks g = hooks f @ logError cfg ''w.Write'' e))"
  by (subst write_loop.simps) (auto split: prod.splits option.splits)

lemma write_loop_inv:
  assumes "write_loop cfg w k f = Some g"
  shows "statusCode g = statusCode f \<and> pool g = pool f
     \<and> (\<exists>ws. ops g = ops f @ Write (resp f) # map Write ws)
     \<and> (hooks g = hooks f \<or> (\<exists>e. hooks g = hooks f @ logError cfg ''w.Write'' e))"
  using assms
proof (induction cfg w k f g rule: write_loop.raw_induct[rotated 1, consumes 1, case_names step])
  case (step wl cfg w k f g)
  note IH = step(1) and body = step(2)
  obtain n err where wr: "w k (resp f) = (n, err)" by (cases "w k (resp f)")
  show ?case
  proof (cases err)
    case (Some e)
    with wr body show ?thesis by auto
  next
    case None
    show ?thesis
    proof (cases "length (resp f) \<le> n")
      case True
      with wr None body show ?thesis by auto
    next
      case False
      with wr None body
      have "wl cfg w (Suc k) ((did (Write (resp f)) f)\<lparr>resp := drop n (resp f)\<rparr>) = Some g"
        by simp
      from IH[OF this] obtain ws where
        g: "statusCode g = statusCode f" "pool g = pool f"
           "ops g = ops f @ Write (resp f) # map Write (drop n (resp f) # ws)"
           "hooks g = hooks f \<or> (\<exists>e. hooks g = hooks f @ logError cfg ''w.Write'' e)"
        by auto
      from g(3) have "\<exists>ws. ops g = ops f @ Write (resp f) # map Write ws" by blast
      with g(1,2,4) show ?thesis by blast
    qed
  qed
qed

lemma write_loop_pool_Some:
  assumes "write_loop cfg w k f = Some g"
  shows "write_loop cfg w k (f\<lparr>pool := p\<rparr>) = Some (g\<lparr>pool := p\<rparr>)"
  using assms
proof (induction cfg w k f g arbitrary: p rule: write_loop.raw_induct[rotated 1, consumes 1, case_names step])
  case (step wl cfg w k f g)
  note IH = step(1) and body = step(2)
  obtain n err where wr: "w k (resp f) = (n, err)" by (cases "w k (resp f)")
  show ?case
  proof (cases err)
    case (Some e)
    with wr body show ?thesis
      by (subst write_loop.simps) (auto simp: hook_def did_def)
  next
    case None
    show ?thesis
    proof (cases "length (resp f) \<le> n")
      case True
      with wr None body show ?thesis
        by (subst write_loop.simps) (auto simp: hook_def did_def)
    next
      case False
      with wr None body
      have "wl cfg w (Suc k) ((did (Write (resp f)) f)\<lparr>resp := drop n (resp f)\<rparr>) = Some g"
        by simp
      then have rec: "write_loop cfg w (Suc k)
          (((did (Write (resp f)) f)\<lparr>resp := drop n (resp f)\<rparr>)\<lparr>pool := p\<rparr>) = Some (g\<lparr>pool := p\<rparr>)"
        by (rule IH)
      have eq: "(did (Write (resp f)) (f\<lparr>pool := p\<rparr>))\<lparr>resp := drop n (resp f)\<rparr>
          = ((did (Write (resp f)) f)\<lparr>resp := drop n (resp f)\<rparr>)\<lparr>pool := p\<rparr>"
        by (cases f) (simp add: did_def)
      have "write_loop cfg w k (f\<lparr>pool := p\<rparr>)
          = write_loop cfg w (Suc k) ((did (Write (resp f)) (f\<lparr>pool := p\<rparr>))\<lparr>resp := drop n (resp f)\<rparr>)"
        using wr None False by (subst write_loop.simps) simp
      also have "\<dots> = Some (g\<lparr>pool := p\<rparr>)"
        by (simp only: eq rec)
      finally show ?thesis .
    qed
  qed
qed

lemma write_loop_pool:
  "write_loop cfg w k (f\<lparr>pool := p\<rparr>) = map_option (\<lambda>g. g\<lparr>pool := p\<rparr>) (write_loop cfg w k f)"
proof (cases "write_loop cfg w k f")
  case (Some g)
  then show ?thesis by (simp add: write_loop_pool_Some)
next
  case None
  have "write_loop cfg w k (f\<lparr>pool := p\<rparr>) = None"
  proof (rule ccontr)
    assume "write_loop cfg w k (f\<lparr>pool := p\<rparr>) \<noteq> None"
    then obtain g where "write_loop cfg w k (f\<lparr>pool := p\<rparr>) = Some g" by auto
    from write_loop_pool_Some[OF this, of "pool f"] None show False by simp
  qed
  with None show ?thesis by simp
qed



subsection \<open>The pool\<close>

text \<open>
  Decoding, the call and encoding leave the pool alone; the part of lines 319 to 387
  takes one message and puts it back reset.
\<close>

lemma encode_pool:
  "encode lb ups json m f0 = (f, pan) \<Longrightarrow> pool f = pool f0 \<and> pool_ops (ops f) = pool_ops (ops f0)"
  by (auto simp: encode_def Let_def split: option.splits sum.splits if_splits)

lemma invoke_pool:
  "invoke lb ups r json arg f0 = (f, pan) \<Longrightarrow> pool f = pool f0 \<and> pool_ops (ops f) = pool_ops (ops f0)"
  by (auto simp: invoke_def Let_def dest!: encode_pool split: outcome.splits option.splits herror.splits)

lemma decode_pool:
  "decode lb ups json req arg0 f0 = (arg, f, ok) \<Longrightarrow> pool f = pool f0 \<and> pool_ops (ops f) = pool_ops (ops f0)"
  by (auto simp: decode_def Let_def split: prod.splits option.splits if_splits)

lemma pooled_pool:
  "pooled lb ups r json req f0 = (f, pan) \<Longrightarrow>
     \<exists>m. pool_ops (ops f) =
            pool_ops (ops f0) @ [PoolGet (fst (Pool_Get (pool f0))), MessageReset m, PoolPut (Reset lb m)]
       \<and> pool f = Pool_Put (snd (Pool_Get (pool f0))) (Reset lb m)"
  by (auto simp: pooled_def Let_def split: prod.splits if_splits dest!: decode_pool invoke_pool)

lemma serve_pool:
  assumes "serve lb ups r f0 = (f, pan)"
  shows "(\<not> accepted lb ups r \<and> pool_ops (ops f) = pool_ops (ops f0) \<and> pool f = pool f0)
       \<or> (accepted lb ups r \<and> (\<exists>m. pool_ops (ops f) =
            pool_ops (ops f0) @ [PoolGet (fst (Pool_Get (pool f0))), MessageReset m, PoolPut (Reset lb m)]
            \<and> pool f = Pool_Put (snd (Pool_Get (pool f0))) (Reset lb m)))"
proof (cases "accepted lb ups r")
  case True
  then obtain req json where a: "Method r = MethodPost" "Body r = BodyData req"
      "negotiate lb (config ups) (Header_Get (Header r) ''Content-Type'') = Accept json"
    by (auto simp: accepted_def split: body.splits negotiation.splits)
  with assms have "pooled lb ups r json req
      (did (ParseMediaType (Header_Get (Header r) ''Content-Type''))
         (did ReadFrom (hook (logStartRequest (config ups) (Method r) (URL r)) f0))) = (f, pan)"
    by (simp add: serve_def Let_def)
  from pooled_pool[OF this] True show ?thesis by simp
next
  case False
  with assms show ?thesis
    by (auto simp: serve_def accepted_def Let_def split: body.splits negotiation.splits option.splits if_splits)
qed

subsection \<open>The response writer\<close>







subsection \<open>The call of the handler\<close>

text \<open>
  A call in the log was made with the arguments of \<open>call_args\<close>, on a POST whose body
  was read, accepted and decoded.
\<close>

lemma encode_calls:
  "encode lb ups json m f0 = (f, pan) \<Longrightarrow> CallHandler args \<in> set (ops f) \<Longrightarrow>
     CallHandler args \<in> set (ops f0)"
  by (auto simp: encode_def Let_def split: option.splits sum.splits if_splits)

lemma invoke_calls:
  "invoke lb ups r json arg f0 = (f, pan) \<Longrightarrow> CallHandler args \<in> set (ops f) \<Longrightarrow>
     CallHandler args \<in> set (ops f0) \<or> args = call_args ups r arg"
  by (auto simp: invoke_def Let_def dest!: encode_calls
           split: outcome.splits option.splits herror.splits)

lemma decode_calls:
  "decode lb ups json req arg0 f0 = (arg, f, ok) \<Longrightarrow>
     (CallHandler args \<in> set (ops f) \<longrightarrow> CallHandler args \<in> set (ops f0))
     \<and> (ok \<longrightarrow> unmarshal lb json req arg0 = (arg, None))"
  by (auto simp: decode_def unmarshal_def Let_def split: prod.splits option.splits if_splits)

lemma pooled_calls:
  assumes "pooled lb ups r json req f0 = (f, pan)" and "CallHandler args \<in> set (ops f)"
  shows "CallHandler args \<in> set (ops f0)
     \<or> (\<exists>arg. unmarshal lb json req (fst (Pool_Get (pool f0))) = (arg, None)
             \<and> args = call_args ups r arg)"
proof -
  obtain arg0 p where g: "Pool_Get (pool f0) = (arg0, p)" by (cases "Pool_Get (pool f0)")
  obtain arg f1 ok where d: "decode lb ups json req arg0 (did (PoolGet arg0) (f0\<lparr>pool := p\<rparr>)) = (arg, f1, ok)"
    by (cases "decode lb ups json req arg0 (did (PoolGet arg0) (f0\<lparr>pool := p\<rparr>))") auto
  obtain f2 pan2 where i: "(if ok then invoke lb ups r json arg f1 else (f1, None)) = (f2, pan2)"
    by (cases "if ok then invoke lb ups r json arg f1 else (f1, None)") auto
  from assms(1) g d i have f: "ops f = ops f2 @ [MessageReset arg, PoolPut (Reset lb arg)]"
    by (auto simp: pooled_def Let_def)
  with assms(2) have c2: "CallHandler args \<in> set (ops f2)" by simp
  from decode_calls[OF d, of args] have
    d1: "CallHandler args \<in> set (ops f1) \<Longrightarrow> CallHandler args \<in> set (ops f0)"
    and d2: "ok \<Longrightarrow> unmarshal lb json req arg0 = (arg, None)"
    by auto
  show ?thesis
  proof (cases ok)
    case True
    with i have "invoke lb ups r json arg f1 = (f2, pan2)" by simp
    from invoke_calls[OF this c2] d1 d2[OF True] g show ?thesis by auto
  next
    case False
    with i c2 d1 show ?thesis by auto
  qed
qed

lemma serve_calls:
  assumes "serve lb ups r f0 = (f, pan)" and "CallHandler args \<in> set (ops f)"
  shows "CallHandler args \<in> set (ops f0)
     \<or> (Method r = MethodPost \<and> (\<exists>req json arg. Body r = BodyData req
          \<and> negotiate lb (config ups) (Header_Get (Header r) ''Content-Type'') = Accept json
          \<and> unmarshal lb json req (fst (Pool_Get (pool f0))) = (arg, None)
          \<and> args = call_args ups r arg))"
proof (cases "accepted lb ups r")
  case True
  then obtain req json where a: "Method r = MethodPost" "Body r = BodyData req"
      "negotiate lb (config ups) (Header_Get (Header r) ''Content-Type'') = Accept json"
    by (auto simp: accepted_def split: body.splits negotiation.splits)
  with assms have "pooled lb ups r json req
      (did (ParseMediaType (Header_Get (Header r) ''Content-Type''))
         (did ReadFrom (hook (logStartRequest (config ups) (Method r) (URL r)) f0))) = (f, pan)"
    by (simp add: serve_def Let_def)
  from pooled_calls[OF this assms(2)] a show ?thesis by auto
next
  case False
  with assms show ?thesis
    by (auto simp: serve_def accepted_def Let_def split: body.splits negotiation.splits option.splits if_splits)
qed

subsection \<open>The pool does not steer a dispatch\<close>

text \<open>
  Two pools that hand out the same message next give the same dispatch.
\<close>

lemma did_pool_upd: "did x (f\<lparr>pool := p\<rparr>) = (did x f)\<lparr>pool := p\<rparr>"
  by (cases f) (simp add: did_def)

lemma hook_pool_upd: "hook e (f\<lparr>pool := p\<rparr>) = (hook e f)\<lparr>pool := p\<rparr>"
  by (cases f) (simp add: hook_def)

lemma statusCode_pool_upd: "(f\<lparr>pool := p\<rparr>)\<lparr>statusCode := c\<rparr> = (f\<lparr>statusCode := c\<rparr>)\<lparr>pool := p\<rparr>"
  by (cases f) simp

lemma encode_pool_upd:
  "encode lb ups json m (f\<lparr>pool := p\<rparr>) = (case encode lb ups json m f of (g, pan) \<Rightarrow> (g\<lparr>pool := p\<rparr>, pan))"
  by (cases f) (simp add: encode_def hook_def did_def Let_def split: option.splits sum.splits)

lemma invoke_pool_upd:
  "invoke lb ups r json arg (f\<lparr>pool := p\<rparr>) = (case invoke lb ups r json arg f of (g, pan) \<Rightarrow> (g\<lparr>pool := p\<rparr>, pan))"
  by (simp add: invoke_def Let_def did_pool_upd statusCode_pool_upd encode_pool_upd
           split: outcome.splits option.splits herror.splits)

lemma decode_pool_upd:
  "decode lb ups json req arg0 (f\<lparr>pool := p\<rparr>)
     = (case decode lb ups json req arg0 f of (arg, g, ok) \<Rightarrow> (arg, g\<lparr>pool := p\<rparr>, ok))"
  by (cases f) (simp add: decode_def hook_def did_def Let_def split: prod.splits option.splits)

lemma view_pool_upd [simp]: "view (f\<lparr>pool := p\<rparr>) = view f"
  by (simp add: view_def)

lemma view_did: "view (did x f) = (statusCode f, resp f, hooks f, ops f @ [x])"
  by (simp add: view_def)

lemma pooled_view_of:
  assumes g: "Pool_Get p = (a, q)"
    and d: "decode lb ups json req a (did (PoolGet a) f) = (arg, g1, ok)"
    and i: "(if ok then invoke lb ups r json arg g1 else (g1, None)) = (g2, pan)"
  shows "(case pooled lb ups r json req (f\<lparr>pool := p\<rparr>) of (g, pan) \<Rightarrow> (view g, pan))
       = ((statusCode g2, resp g2, hooks g2, ops g2 @ [MessageReset arg, PoolPut (Reset lb arg)]), pan)"
proof -
  have 0: "Pool_Get (pool (f\<lparr>pool := p\<rparr>)) = (a, q)"
    using g by simp
  have 1: "did (PoolGet a) (f\<lparr>pool := p, pool := q\<rparr>) = (did (PoolGet a) f)\<lparr>pool := q\<rparr>"
    by (cases f) (simp add: did_def)
  have 2: "decode lb ups json req a ((did (PoolGet a) f)\<lparr>pool := q\<rparr>) = (arg, g1\<lparr>pool := q\<rparr>, ok)"
    by (simp add: decode_pool_upd d)
  have 3: "(if ok then invoke lb ups r json arg (g1\<lparr>pool := q\<rparr>) else (g1\<lparr>pool := q\<rparr>, None))
             = (g2\<lparr>pool := q\<rparr>, pan)"
    using i by (cases ok) (simp_all add: invoke_pool_upd)
  have "pooled lb ups r json req (f\<lparr>pool := p\<rparr>)
      = (did (PoolPut (Reset lb arg))
           ((did (MessageReset arg) (g2\<lparr>pool := q\<rparr>))
              \<lparr>pool := Pool_Put (pool (did (MessageReset arg) (g2\<lparr>pool := q\<rparr>))) (Reset lb arg)\<rparr>), pan)"
    unfolding pooled_def by (simp only: 0 prod.case Let_def 1 2 3)
  then show ?thesis by (simp add: view_def)
qed

lemma pooled_view:
  assumes "fst (Pool_Get p1) = fst (Pool_Get p2)"
  shows "(case pooled lb ups r json req (f\<lparr>pool := p1\<rparr>) of (g, pan) \<Rightarrow> (view g, pan))
       = (case pooled lb ups r json req (f\<lparr>pool := p2\<rparr>) of (g, pan) \<Rightarrow> (view g, pan))"
proof -
  obtain a q1 where g1: "Pool_Get p1 = (a, q1)" by (cases "Pool_Get p1")
  with assms obtain q2 where g2: "Pool_Get p2 = (a, q2)" by (cases "Pool_Get p2") auto
  obtain arg h1 ok where d: "decode lb ups json req a (did (PoolGet a) f) = (arg, h1, ok)"
    by (cases "decode lb ups json req a (did (PoolGet a) f)") auto
  obtain h2 pan where i: "(if ok then invoke lb ups r json arg h1 else (h1, None)) = (h2, pan)"
    by (cases "if ok then invoke lb ups r json arg h1 else (h1, None)") auto
  show ?thesis
    by (simp only: pooled_view_of[OF g1 d i] pooled_view_of[OF g2 d i])
qed

lemma serve_view:
  assumes "fst (Pool_Get p1) = fst (Pool_Get p2)"
  shows "(case serve lb ups r (f\<lparr>pool := p1\<rparr>) of (g, pan) \<Rightarrow> (view g, pan))
       = (case serve lb ups r (f\<lparr>pool := p2\<rparr>) of (g, pan) \<Rightarrow> (view g, pan))"
proof (cases "accepted lb ups r")
  case True
  then obtain req json where a: "Method r = MethodPost" "Body r = BodyData req"
      "negotiate lb (config ups) (Header_Get (Header r) ''Content-Type'') = Accept json"
    by (auto simp: accepted_def split: body.splits negotiation.splits)
  define f1 where "f1 = did (ParseMediaType (Header_Get (Header r) ''Content-Type''))
         (did ReadFrom (hook (logStartRequest (config ups) (Method r) (URL r)) f))"
  have "serve lb ups r (f\<lparr>pool := p\<rparr>) = pooled lb ups r json req (f1\<lparr>pool := p\<rparr>)" for p
    using a by (simp add: serve_def Let_def f1_def hook_pool_upd did_pool_upd)
  then show ?thesis by (simp only: pooled_view[OF assms])
next
  case False
  then show ?thesis
    by (auto simp: serve_def accepted_def Let_def view_def
             split: body.splits negotiation.splits option.splits)
qed

lemma recovered_view:
  assumes "fst (Pool_Get p1) = fst (Pool_Get p2)"
  shows "view (recovered lb ups r (f\<lparr>pool := p1\<rparr>)) = view (recovered lb ups r (f\<lparr>pool := p2\<rparr>))"
proof -
  obtain g1 pan1 where s1: "serve lb ups r (f\<lparr>pool := p1\<rparr>) = (g1, pan1)"
    by (cases "serve lb ups r (f\<lparr>pool := p1\<rparr>)")
  obtain g2 pan2 where s2: "serve lb ups r (f\<lparr>pool := p2\<rparr>) = (g2, pan2)"
    by (cases "serve lb ups r (f\<lparr>pool := p2\<rparr>)")
  from serve_view[OF assms, of lb ups r f] s1 s2 have "view g1 = view g2" "pan1 = pan2" by simp_all
  with s1 s2 show ?thesis
    by (cases pan2) (simp_all add: recovered_def view_def)
qed

lemma serve_ups_pool: "serve lb (ups\<lparr>requestObjectPool := p\<rparr>) r f = serve lb ups r f"
  by (simp add: serve_def pooled_def decode_def invoke_def encode_def call_args_def Let_def
           cong: option.case_cong sum.case_cong outcome.case_cong herror.case_cong body.case_cong
                 negotiation.case_cong handlerType.case_cong prod.case_cong if_cong)

lemma frame0_ups_pool: "frame0 (ups\<lparr>requestObjectPool := p\<rparr>) = (frame0 ups)\<lparr>pool := p\<rparr>"
  by (simp add: frame0_def)

lemma frame_eq_view: "view f1 = view f2 \<Longrightarrow> f2 = f1\<lparr>pool := pool f2\<rparr>"
  by (cases f1, cases f2) (simp add: view_def)

lemma view_hook: "view (hook e f) = (statusCode f, resp f, hooks f @ e, ops f)"
  by (simp add: view_def)

subsection \<open>The ways through the closure\<close>

text \<open>
  The five variables of the frame at the end of the closure, for each way out of it.
\<close>

lemma recovered_not_post:
  assumes "Method r \<noteq> MethodPost"
  shows "statusCode (recovered lb ups r (frame0 ups)) = 405"
    and "resp (recovered lb ups r (frame0 ups)) = []"
    and "pool (recovered lb ups r (frame0 ups)) = requestObjectPool ups"
    and "hooks (recovered lb ups r (frame0 ups)) = logStartRequest (config ups) (Method r) (URL r)"
    and "ops (recovered lb ups r (frame0 ups)) = []"
  using assms by (simp_all add: recovered_def serve_def Let_def)

lemma recovered_body_error:
  assumes "Method r = MethodPost" and "Body r = BodyError e"
  shows "statusCode (recovered lb ups r (frame0 ups)) = 500"
    and "resp (recovered lb ups r (frame0 ups)) = []"
    and "pool (recovered lb ups r (frame0 ups)) = requestObjectPool ups"
    and "hooks (recovered lb ups r (frame0 ups)) =
           logStartRequest (config ups) (Method r) (URL r) @ logError (config ups) ''req.ReadFrom'' e"
    and "ops (recovered lb ups r (frame0 ups)) = [ReadFrom]"
  using assms by (simp_all add: recovered_def serve_def Let_def)

lemma recovered_rejected:
  assumes "Method r = MethodPost" and "Body r = BodyData req"
    and "negotiate lb (config ups) (Header_Get (Header r) ''Content-Type'') = Reject e"
  shows "statusCode (recovered lb ups r (frame0 ups)) = 415"
    and "resp (recovered lb ups r (frame0 ups)) = []"
    and "pool (recovered lb ups r (frame0 ups)) = requestObjectPool ups"
    and "hooks (recovered lb ups r (frame0 ups)) =
           logStartRequest (config ups) (Method r) (URL r)
           @ (case e of Some err \<Rightarrow> logError (config ups) ''mime.ParseMediaType'' err | None \<Rightarrow> [])"
    and "ops (recovered lb ups r (frame0 ups)) =
           [ReadFrom, ParseMediaType (Header_Get (Header r) ''Content-Type'')]"
  using assms by (cases e; simp add: recovered_def serve_def Let_def)+

lemma recovered_decode_failed:
  assumes "Method r = MethodPost" and "Body r = BodyData req"
    and "negotiate lb (config ups) (Header_Get (Header r) ''Content-Type'') = Accept json"
    and "unmarshal lb json req (fst (Pool_Get (requestObjectPool ups))) = (arg, Some e)"
  shows "statusCode (recovered lb ups r (frame0 ups)) = 500"
    and "resp (recovered lb ups r (frame0 ups)) = []"
    and "pool (recovered lb ups r (frame0 ups)) =
           Pool_Put (snd (Pool_Get (requestObjectPool ups))) (Reset lb arg)"
    and "hooks (recovered lb ups r (frame0 ups)) =
           logStartRequest (config ups) (Method r) (URL r)
           @ (if json then logRequestJSON (config ups) req else logRequestBytes (config ups) req)
           @ logError (config ups) (if json then ''jsonpb.Unmarshal'' else ''proto.Unmarshal'') e"
    and "ops (recovered lb ups r (frame0 ups)) =
           before_call_ops ups r json req @ [MessageReset arg, PoolPut (Reset lb arg)]"
  using assms
  by (cases json; simp add: recovered_def serve_def pooled_def decode_def unmarshal_def
        before_call_ops_def Let_def case_prod_beta)+

lemma recovered_panics:
  assumes "Method r = MethodPost" and "Body r = BodyData req"
    and "negotiate lb (config ups) (Header_Get (Header r) ''Content-Type'') = Accept json"
    and "unmarshal lb json req (fst (Pool_Get (requestObjectPool ups))) = (arg, None)"
    and "Call (handler ups) (call_args ups r arg) = Panics v"
  shows "statusCode (recovered lb ups r (frame0 ups)) = 500"
    and "resp (recovered lb ups r (frame0 ups)) = []"
    and "pool (recovered lb ups r (frame0 ups)) =
           Pool_Put (snd (Pool_Get (requestObjectPool ups))) (Reset lb arg)"
    and "hooks (recovered lb ups r (frame0 ups)) =
           before_call_hooks lb ups r json req arg @ logPanic (config ups) v"
    and "ops (recovered lb ups r (frame0 ups)) =
           before_call_ops ups r json req
           @ [CallHandler (call_args ups r arg), MessageReset arg, PoolPut (Reset lb arg)]"
  using assms
  by (cases json; simp add: recovered_def serve_def pooled_def decode_def invoke_def unmarshal_def
        before_call_ops_def before_call_hooks_def Let_def case_prod_beta)+

lemma recovered_IsNil_panics:
  assumes "Method r = MethodPost" and "Body r = BodyData req"
    and "negotiate lb (config ups) (Header_Get (Header r) ''Content-Type'') = Accept json"
    and "unmarshal lb json req (fst (Pool_Get (requestObjectPool ups))) = (arg, None)"
    and "Call (handler ups) (call_args ups r arg) = Return2 m e"
    and "IsNil_panic lb (handler ups) = Some v"
  shows "statusCode (recovered lb ups r (frame0 ups)) = 500"
    and "resp (recovered lb ups r (frame0 ups)) = []"
    and "pool (recovered lb ups r (frame0 ups)) =
           Pool_Put (snd (Pool_Get (requestObjectPool ups))) (Reset lb arg)"
    and "hooks (recovered lb ups r (frame0 ups)) =
           before_call_hooks lb ups r json req arg @ logPanic (config ups) v"
    and "ops (recovered lb ups r (frame0 ups)) =
           before_call_ops ups r json req
           @ [CallHandler (call_args ups r arg), MessageReset arg, PoolPut (Reset lb arg)]"
  using assms
  by (cases json; simp add: recovered_def serve_def pooled_def decode_def invoke_def unmarshal_def
        before_call_ops_def before_call_hooks_def Let_def case_prod_beta)+

lemma recovered_handler_error:
  assumes "Method r = MethodPost" and "Body r = BodyData req"
    and "negotiate lb (config ups) (Header_Get (Header r) ''Content-Type'') = Accept json"
    and "unmarshal lb json req (fst (Pool_Get (requestObjectPool ups))) = (arg, None)"
    and "Call (handler ups) (call_args ups r arg) = Return2 m (Some e)"
    and "IsNil_panic lb (handler ups) = None"
  shows "statusCode (recovered lb ups r (frame0 ups)) =
           (case e of StatusCoderError s code \<Rightarrow> code | PlainError s \<Rightarrow> 500)"
    and "resp (recovered lb ups r (frame0 ups)) = []"
    and "pool (recovered lb ups r (frame0 ups)) =
           Pool_Put (snd (Pool_Get (requestObjectPool ups))) (Reset lb arg)"
    and "hooks (recovered lb ups r (frame0 ups)) = before_call_hooks lb ups r json req arg"
    and "ops (recovered lb ups r (frame0 ups)) =
           before_call_ops ups r json req
           @ [CallHandler (call_args ups r arg), MessageReset arg, PoolPut (Reset lb arg)]"
  using assms
  by (cases json; cases e; simp add: recovered_def serve_def pooled_def decode_def invoke_def unmarshal_def
        before_call_ops_def before_call_hooks_def Let_def case_prod_beta)+

lemma recovered_encoded:
  assumes "Method r = MethodPost" and "Body r = BodyData req"
    and "negotiate lb (config ups) (Header_Get (Header r) ''Content-Type'') = Accept json"
    and "unmarshal lb json req (fst (Pool_Get (requestObjectPool ups))) = (arg, None)"
    and "Call (handler ups) (call_args ups r arg) = Return1 m
         \<or> Call (handler ups) (call_args ups r arg) = Return2 m None
             \<and> IsNil_panic lb (handler ups) = None"
    and "json \<longrightarrow> JSONMarshaler (config ups) = Some ms"
    and "(if json then ms m else proto_Marshal lb m) = Inr b"
  shows "statusCode (recovered lb ups r (frame0 ups)) = 200"
    and "resp (recovered lb ups r (frame0 ups)) = b"
    and "pool (recovered lb ups r (frame0 ups)) =
           Pool_Put (snd (Pool_Get (requestObjectPool ups))) (Reset lb arg)"
    and "hooks (recovered lb ups r (frame0 ups)) =
           before_call_hooks lb ups r json req arg @ logResponseMessage (config ups) m
           @ (if json then logResponseJSON (config ups) b else logResponseBytes (config ups) b)"
    and "ops (recovered lb ups r (frame0 ups)) =
           before_call_ops ups r json req
           @ [CallHandler (call_args ups r arg),
              if json then MarshalToString m else ProtoMarshal m,
              HeaderSet ''Content-Type'' (if json then ''application/json'' else ''application/octet-stream''),
              MessageReset arg, PoolPut (Reset lb arg)]"
  using assms
  by (cases json; auto simp add: recovered_def serve_def pooled_def decode_def invoke_def encode_def
        unmarshal_def before_call_ops_def before_call_hooks_def Let_def case_prod_beta)+


subsection \<open>After the closure\<close>

lemma checkWriteHeaderCode_valid [simp]:
  "100 \<le> c \<Longrightarrow> c \<le> 999 \<Longrightarrow> checkWriteHeaderCode c = None"
  by (simp add: checkWriteHeaderCode_def)


lemma checkWriteHeaderCode_Some:
  "checkWriteHeaderCode c = Some v \<longleftrightarrow>
     (c < 100 \<or> 999 < c) \<and> v = ''invalid WriteHeader code '' @ Itoa c"
  by (auto simp: checkWriteHeaderCode_def)


lemma ServeHTTP_error_status:
  assumes "statusCode (recovered lb ups r (frame0 ups)) = c" and "c \<noteq> 200"
    and "100 \<le> c" and "c \<le> 999"
  shows "\<exists>f. ServeHTTP lb ups w r = Some (f, None) \<and> statusCode f = c
      \<and> resp f = resp (recovered lb ups r (frame0 ups))
      \<and> pool f = pool (recovered lb ups r (frame0 ups))
      \<and> hooks f = hooks (recovered lb ups r (frame0 ups)) @ errorResponse_call (config ups) c
                   @ logEndRequest (config ups) (Method r) (URL r) c
      \<and> ops f = ops (recovered lb ups r (frame0 ups)) @ [HttpError (errorResponse (config ups) c) c]"
  using assms by (simp add: ServeHTTP_def http_Error_def Let_def)

lemma ServeHTTP_error_panics:
  assumes "statusCode (recovered lb ups r (frame0 ups)) = c" and "c < 100 \<or> 999 < c"
  shows "\<exists>f. ServeHTTP lb ups w r = Some (f, Some (''invalid WriteHeader code '' @ Itoa c))
      \<and> statusCode f = c
      \<and> resp f = resp (recovered lb ups r (frame0 ups))
      \<and> pool f = pool (recovered lb ups r (frame0 ups))
      \<and> hooks f = hooks (recovered lb ups r (frame0 ups)) @ errorResponse_call (config ups) c
      \<and> ops f = ops (recovered lb ups r (frame0 ups)) @ [HttpError (errorResponse (config ups) c) c]"
proof -
  from assms(2) have "c \<noteq> 200" by auto
  moreover from assms(2) have "checkWriteHeaderCode c = Some (''invalid WriteHeader code '' @ Itoa c)"
    by (simp add: checkWriteHeaderCode_Some)
  ultimately show ?thesis
    using assms(1) by (simp add: ServeHTTP_def http_Error_def Let_def)
qed

lemma ServeHTTP_ok:
  assumes "statusCode (recovered lb ups r (frame0 ups)) = 200"
  shows "ServeHTTP lb ups w r =
     map_option (\<lambda>g. (hook (logEndRequest (config ups) (Method r) (URL r) (statusCode g)) g, None))
       (write_loop (config ups) w 0 (recovered lb ups r (frame0 ups)))"
  using assms by (simp add: ServeHTTP_def Let_def split: option.splits)

lemma ServeHTTP_ok_status:
  assumes "ServeHTTP lb ups w r = Some (f, pan)"
    and "statusCode (recovered lb ups r (frame0 ups)) = 200"
  shows "pan = None \<and> statusCode f = 200 \<and> pool f = pool (recovered lb ups r (frame0 ups))
      \<and> (\<exists>ws. ops f = ops (recovered lb ups r (frame0 ups))
                @ Write (resp (recovered lb ups r (frame0 ups))) # map Write ws)
      \<and> (\<exists>es. hooks f = hooks (recovered lb ups r (frame0 ups)) @ es
                @ logEndRequest (config ups) (Method r) (URL r) 200
              \<and> (es = [] \<or> (\<exists>e. es = logError (config ups) ''w.Write'' e)))"
proof -
  define f2 where "f2 = recovered lb ups r (frame0 ups)"
  from assms obtain g where g: "write_loop (config ups) w 0 f2 = Some g"
      and f: "f = hook (logEndRequest (config ups) (Method r) (URL r) (statusCode g)) g"
      and p: "pan = None"
    by (auto simp: ServeHTTP_ok f2_def)
  from write_loop_inv[OF g] assms(2) f p show ?thesis
    unfolding f2_def[symmetric] by auto
qed


lemma ServeHTTP_ok_full_write:
  assumes "statusCode (recovered lb ups r (frame0 ups)) = 200"
    and "w 0 (resp (recovered lb ups r (frame0 ups))) = (n, None)"
    and "length (resp (recovered lb ups r (frame0 ups))) \<le> n"
  shows "\<exists>f. ServeHTTP lb ups w r = Some (f, None) \<and> statusCode f = 200
      \<and> pool f = pool (recovered lb ups r (frame0 ups))
      \<and> hooks f = hooks (recovered lb ups r (frame0 ups)) @ logEndRequest (config ups) (Method r) (URL r) 200
      \<and> ops f = ops (recovered lb ups r (frame0 ups)) @ [Write (resp (recovered lb ups r (frame0 ups)))]"
  using assms by (simp add: ServeHTTP_ok write_loop_full)

lemma ServeHTTP_ok_empty:
  assumes "statusCode (recovered lb ups r (frame0 ups)) = 200"
    and "resp (recovered lb ups r (frame0 ups)) = []"
  shows "\<exists>f. ServeHTTP lb ups w r = Some (f, None) \<and> statusCode f = 200 \<and> resp f = []
      \<and> pool f = pool (recovered lb ups r (frame0 ups))
      \<and> (\<exists>es. hooks f = hooks (recovered lb ups r (frame0 ups)) @ es
                @ logEndRequest (config ups) (Method r) (URL r) 200
              \<and> (es = [] \<or> (\<exists>e. es = logError (config ups) ''w.Write'' e)))
      \<and> ops f = ops (recovered lb ups r (frame0 ups)) @ [Write []]"
proof -
  from write_loop_empty[OF assms(2), of "config ups" w 0] obtain g where
    g: "write_loop (config ups) w 0 (recovered lb ups r (frame0 ups)) = Some g"
       "statusCode g = statusCode (recovered lb ups r (frame0 ups))" "resp g = []"
       "pool g = pool (recovered lb ups r (frame0 ups))"
       "ops g = ops (recovered lb ups r (frame0 ups)) @ [Write []]"
       "hooks g = hooks (recovered lb ups r (frame0 ups))
        \<or> (\<exists>e. hooks g = hooks (recovered lb ups r (frame0 ups)) @ logError (config ups) ''w.Write'' e)"
    by blast
  from g assms(1) show ?thesis
    by (auto simp: ServeHTTP_ok)
qed


lemma ServeHTTP_frame:
  assumes "ServeHTTP lb ups w r = Some (f, pan)"
  shows "pool f = pool (recovered lb ups r (frame0 ups))
     \<and> statusCode f = statusCode (recovered lb ups r (frame0 ups))
     \<and> (\<exists>xs. ops f = ops (recovered lb ups r (frame0 ups)) @ xs \<and> writer_ops xs = xs
            \<and> (if statusCode f = 200 then \<exists>b ws. xs = Write b # map Write ws
                else xs = [HttpError (errorResponse (config ups) (statusCode f)) (statusCode f)]))"
proof (cases "statusCode (recovered lb ups r (frame0 ups)) = 200")
  case True
  from ServeHTTP_ok_status[OF assms True] obtain ws where
    "statusCode f = 200" "pool f = pool (recovered lb ups r (frame0 ups))"
    "ops f = ops (recovered lb ups r (frame0 ups))
       @ Write (resp (recovered lb ups r (frame0 ups))) # map Write ws"
    by blast
  moreover have "writer_ops (Write (resp (recovered lb ups r (frame0 ups))) # map Write ws)
      = Write (resp (recovered lb ups r (frame0 ups))) # map Write ws"
    by (simp add: filter_map comp_def)
  ultimately show ?thesis using True by auto
next
  case False
  with assms show ?thesis
    by (cases "checkWriteHeaderCode (statusCode (recovered lb ups r (frame0 ups)))")
       (auto simp: ServeHTTP_def http_Error_def Let_def)
qed

lemma ServeHTTP_pool_ops:
  assumes "ServeHTTP lb ups w r = Some (f, pan)"
  shows "(\<not> accepted lb ups r \<and> pool_ops (ops f) = [] \<and> pool f = requestObjectPool ups)
       \<or> (accepted lb ups r \<and> (\<exists>m. pool_ops (ops f) =
            [PoolGet (fst (Pool_Get (requestObjectPool ups))), MessageReset m, PoolPut (Reset lb m)]
            \<and> pool f = Pool_Put (snd (Pool_Get (requestObjectPool ups))) (Reset lb m)))"
proof -
  obtain f1 pan1 where s: "serve lb ups r (frame0 ups) = (f1, pan1)"
    by (cases "serve lb ups r (frame0 ups)")
  define f2 where "f2 = recovered lb ups r (frame0 ups)"
  have f2: "pool f2 = pool f1" "ops f2 = ops f1"
    using s by (auto simp: f2_def recovered_def split: option.splits)
  from ServeHTTP_frame[OF assms] obtain xs where
    x: "pool f = pool f2" "ops f = ops f2 @ xs" "writer_ops xs = xs"
    unfolding f2_def by blast
  have "pool_ops xs = pool_ops (writer_ops xs)" by (simp only: x(3))
  also have "\<dots> = []" by (simp add: filter_empty_conv) (metis is_pool_op.simps is_writer_op.elims(2))
  finally have "pool f = pool f2 \<and> pool_ops (ops f) = pool_ops (ops f2)"
    using x(1,2) by simp
  with serve_pool[OF s] f2 show ?thesis by simp
qed


lemma ServeHTTP_calls:
  assumes "ServeHTTP lb ups w r = Some (f, pan)" and "CallHandler args \<in> set (ops f)"
  shows "Method r = MethodPost \<and> (\<exists>req json arg. Body r = BodyData req
          \<and> negotiate lb (config ups) (Header_Get (Header r) ''Content-Type'') = Accept json
          \<and> unmarshal lb json req (fst (Pool_Get (requestObjectPool ups))) = (arg, None)
          \<and> args = call_args ups r arg)"
proof -
  obtain f1 pan1 where s: "serve lb ups r (frame0 ups) = (f1, pan1)"
    by (cases "serve lb ups r (frame0 ups)")
  define f2 where "f2 = recovered lb ups r (frame0 ups)"
  have f2: "ops f2 = ops f1"
    using s by (auto simp: f2_def recovered_def split: option.splits)
  from ServeHTTP_frame[OF assms(1)] obtain xs where
    x: "ops f = ops f2 @ xs" "writer_ops xs = xs"
    unfolding f2_def by blast
  have "CallHandler args \<notin> set xs" by (subst x(2)[symmetric]) simp
  with assms(2) x(1) f2 have "CallHandler args \<in> set (ops f1)" by simp
  from serve_calls[OF s this] show ?thesis by simp
qed

lemma ServeHTTP_view:
  assumes "fst (Pool_Get p1) = fst (Pool_Get p2)"
  shows "map_option outcome_view (ServeHTTP lb (ups\<lparr>requestObjectPool := p1\<rparr>) w r)
       = map_option outcome_view (ServeHTTP lb (ups\<lparr>requestObjectPool := p2\<rparr>) w r)"
proof -
  define g1 where "g1 = recovered lb ups r ((frame0 ups)\<lparr>pool := p1\<rparr>)"
  define g2 where "g2 = recovered lb ups r ((frame0 ups)\<lparr>pool := p2\<rparr>)"
  have r: "recovered lb (ups\<lparr>requestObjectPool := p\<rparr>) r f = recovered lb ups r f" for p f
    by (simp add: recovered_def serve_ups_pool)
  have v: "view g1 = view g2"
    unfolding g1_def g2_def using assms by (rule recovered_view)
  then have g2: "g2 = g1\<lparr>pool := pool g2\<rparr>" by (rule frame_eq_view)
  have st: "statusCode g2 = statusCode g1" using v by (simp add: view_def)
  have S: "ServeHTTP lb (ups\<lparr>requestObjectPool := p\<rparr>) w r =
      (case (if statusCode (recovered lb ups r ((frame0 ups)\<lparr>pool := p\<rparr>)) = 200
             then (case write_loop (config ups) w 0 (recovered lb ups r ((frame0 ups)\<lparr>pool := p\<rparr>)) of
                     None \<Rightarrow> None | Some f' \<Rightarrow> Some (f', None))
             else Some (http_Error (errorResponse (config ups) (statusCode (recovered lb ups r ((frame0 ups)\<lparr>pool := p\<rparr>))))
                            (statusCode (recovered lb ups r ((frame0 ups)\<lparr>pool := p\<rparr>)))
                    (hook (errorResponse_call (config ups) (statusCode (recovered lb ups r ((frame0 ups)\<lparr>pool := p\<rparr>))))
                       (recovered lb ups r ((frame0 ups)\<lparr>pool := p\<rparr>))))) of
         None \<Rightarrow> None
       | Some (f', Some v) \<Rightarrow> Some (f', Some v)
       | Some (f', None) \<Rightarrow>
           Some (hook (logEndRequest (config ups) (Method r) (URL r) (statusCode f')) f', None))" for p
    by (simp add: ServeHTTP_def Let_def r frame0_ups_pool cong: option.case_cong if_cong prod.case_cong)
  show ?thesis
  proof (cases "statusCode g1 = 200")
    case True
    have "write_loop (config ups) w 0 g2 = map_option (\<lambda>g. g\<lparr>pool := pool g2\<rparr>) (write_loop (config ups) w 0 g1)"
      by (subst g2) (rule write_loop_pool)
    with True st show ?thesis
      by (cases "write_loop (config ups) w 0 g1")
         (simp_all add: S g1_def[symmetric] g2_def[symmetric] outcome_view_def view_hook)
  next
    case False
    with st v show ?thesis
      by (cases "checkWriteHeaderCode (statusCode g1)")
         (simp_all add: S g1_def[symmetric] g2_def[symmetric] http_Error_def outcome_view_def view_hook,
          simp_all add: view_def)
  qed
qed

lemma ServeHTTP_rejected:
  assumes "Method r = MethodPost" and "Body r = BodyData req"
    and "negotiate lb (config ups) (Header_Get (Header r) ''Content-Type'') = Reject e"
  shows "\<exists>f. ServeHTTP lb ups w r = Some (f, None) \<and> statusCode f = 415
      \<and> ops f = [ReadFrom, ParseMediaType (Header_Get (Header r) ''Content-Type''),
                HttpError (errorResponse (config ups) 415) 415]"
proof -
  note R = recovered_rejected[OF assms]
  from ServeHTTP_error_status[OF R(1), where w = w] obtain f where
    "ServeHTTP lb ups w r = Some (f, None)" "statusCode f = 415"
    "ops f = ops (recovered lb ups r (frame0 ups)) @ [HttpError (errorResponse (config ups) 415) 415]"
    by auto
  with R(5) show ?thesis by simp
qed

lemma ServeHTTP_body_error:
  assumes "Method r = MethodPost" and "Body r = BodyError e"
  shows "\<exists>f. ServeHTTP lb ups w r = Some (f, None) \<and> statusCode f = 500
      \<and> ops f = [ReadFrom, HttpError (errorResponse (config ups) 500) 500]"
proof -
  note R = recovered_body_error[OF assms, where lb = lb and ups = ups]
  from ServeHTTP_error_status[OF R(1), where w = w] obtain f where
    "ServeHTTP lb ups w r = Some (f, None)" "statusCode f = 500"
    "ops f = ops (recovered lb ups r (frame0 ups)) @ [HttpError (errorResponse (config ups) 500) 500]"
    by auto
  with R(5) show ?thesis by simp
qed

subsection \<open>The order of the operations\<close>

lemma encode_late:
  "encode lb ups json m f0 = (f, pan) \<Longrightarrow> \<exists>xs. ops f = ops f0 @ xs \<and> list_all (late_op json) xs"
  by (auto simp: encode_def Let_def split: option.splits sum.splits if_splits)

lemma invoke_late:
  assumes "invoke lb ups r json arg f0 = (f, pan)"
  shows "\<exists>xs. ops f = ops f0 @ xs \<and> list_all (late_op json) xs"
proof (cases "Call (handler ups) (call_args ups r arg)")
  case (Panics v)
  with assms show ?thesis by (auto simp: invoke_def Let_def)
next
  case (Return1 m)
  with assms have "encode lb ups json m (did (CallHandler (call_args ups r arg)) f0) = (f, pan)"
    by (simp add: invoke_def Let_def)
  from encode_late[OF this] obtain xs where
    "ops f = ops f0 @ CallHandler (call_args ups r arg) # xs" "list_all (late_op json) xs" by auto
  then have "ops f = ops f0 @ (CallHandler (call_args ups r arg) # xs)
      \<and> list_all (late_op json) (CallHandler (call_args ups r arg) # xs)" by simp
  then show ?thesis by blast
next
  case (Return2 m eo)
  show ?thesis
  proof (cases "IsNil_panic lb (handler ups)")
    case (Some v)
    with Return2 assms show ?thesis by (auto simp: invoke_def Let_def)
  next
    case nil: None
    show ?thesis
    proof (cases eo)
      case None
      with Return2 nil assms
      have "encode lb ups json m (did (CallHandler (call_args ups r arg)) f0) = (f, pan)"
        by (simp add: invoke_def Let_def)
      from encode_late[OF this] obtain xs where
        "ops f = ops f0 @ CallHandler (call_args ups r arg) # xs" "list_all (late_op json) xs" by auto
      then have "ops f = ops f0 @ (CallHandler (call_args ups r arg) # xs)
          \<and> list_all (late_op json) (CallHandler (call_args ups r arg) # xs)" by simp
      then show ?thesis by blast
    next
      case (Some e)
      with Return2 nil assms show ?thesis by (cases e) (auto simp: invoke_def Let_def)
    qed
  qed
qed

lemma decode_ops:
  "decode lb ups json req arg0 f0 = (arg, f, ok) \<Longrightarrow>
     ops f = ops f0 @ [if json then JsonUnmarshal req else ProtoUnmarshal req]"
  by (auto simp: decode_def Let_def split: prod.splits option.splits if_splits)

lemma pooled_late:
  assumes "pooled lb ups r json req f0 = (f, pan)"
  shows "\<exists>xs. ops f = ops f0 @ PoolGet (fst (Pool_Get (pool f0)))
                # (if json then JsonUnmarshal req else ProtoUnmarshal req) # xs
             \<and> list_all (late_op json) xs"
proof -
  obtain arg0 p where g: "Pool_Get (pool f0) = (arg0, p)" by (cases "Pool_Get (pool f0)")
  obtain arg f1 ok where d: "decode lb ups json req arg0 (did (PoolGet arg0) (f0\<lparr>pool := p\<rparr>)) = (arg, f1, ok)"
    by (cases "decode lb ups json req arg0 (did (PoolGet arg0) (f0\<lparr>pool := p\<rparr>))") auto
  obtain f2 pan2 where i: "(if ok then invoke lb ups r json arg f1 else (f1, None)) = (f2, pan2)"
    by (cases "if ok then invoke lb ups r json arg f1 else (f1, None)") auto
  from assms g d i have f: "ops f = ops f2 @ [MessageReset arg, PoolPut (Reset lb arg)]"
    by (auto simp: pooled_def Let_def)
  from decode_ops[OF d] have f1: "ops f1 = ops f0 @ [PoolGet arg0, if json then JsonUnmarshal req else ProtoUnmarshal req]"
    by simp
  have "\<exists>xs. ops f2 = ops f1 @ xs \<and> list_all (late_op json) xs"
  proof (cases ok)
    case True
    with i have "invoke lb ups r json arg f1 = (f2, pan2)" by simp
    then show ?thesis by (rule invoke_late)
  next
    case False
    with i show ?thesis by auto
  qed
  then obtain xs where xs: "ops f2 = ops f1 @ xs" "list_all (late_op json) xs" by blast
  with f f1 g have "ops f = ops f0 @ PoolGet (fst (Pool_Get (pool f0)))
                # (if json then JsonUnmarshal req else ProtoUnmarshal req)
                # (xs @ [MessageReset arg, PoolPut (Reset lb arg)])
      \<and> list_all (late_op json) (xs @ [MessageReset arg, PoolPut (Reset lb arg)])"
    by simp
  then show ?thesis by blast
qed

lemma ServeHTTP_late:
  assumes "Method r = MethodPost" and "Body r = BodyData req"
    and "negotiate lb (config ups) (Header_Get (Header r) ''Content-Type'') = Accept json"
    and "ServeHTTP lb ups w r = Some (f, pan)"
  shows "\<exists>xs. ops f = before_call_ops ups r json req @ xs \<and> list_all (late_op json) xs"
proof -
  obtain f1 pan1 where s: "serve lb ups r (frame0 ups) = (f1, pan1)"
    by (cases "serve lb ups r (frame0 ups)")
  with assms(1-3) have "pooled lb ups r json req
      (did (ParseMediaType (Header_Get (Header r) ''Content-Type''))
         (did ReadFrom (hook (logStartRequest (config ups) (Method r) (URL r)) (frame0 ups)))) = (f1, pan1)"
    by (simp add: serve_def Let_def)
  from pooled_late[OF this] obtain xs where
    xs: "ops f1 = before_call_ops ups r json req @ xs" "list_all (late_op json) xs"
    by (auto simp: before_call_ops_def)
  define f2 where "f2 = recovered lb ups r (frame0 ups)"
  have f2: "ops f2 = ops f1"
    using s by (auto simp: f2_def recovered_def split: option.splits)
  from ServeHTTP_frame[OF assms(4)] obtain ys where
    y: "ops f = ops f2 @ ys"
       "if statusCode f = 200 then \<exists>b ws. ys = Write b # map Write ws
        else ys = [HttpError (errorResponse (config ups) (statusCode f)) (statusCode f)]"
    unfolding f2_def by blast
  have "list_all (late_op json) ys"
  proof (cases "statusCode f = 200")
    case True
    with y(2) obtain b ws where "ys = Write b # map Write ws" by auto
    then show ?thesis by (simp add: list_all_iff)
  next
    case False
    with y(2) show ?thesis by simp
  qed
  with y(1) xs f2 have "ops f = before_call_ops ups r json req @ (xs @ ys) \<and> list_all (late_op json) (xs @ ys)"
    by simp
  then show ?thesis by blast
qed

lemma late_op_facts:
  assumes "list_all (late_op json) xs"
  shows "ReadFrom \<notin> set xs" "ParseMediaType c \<notin> set xs" "PoolGet a \<notin> set xs"
    "JsonUnmarshal x \<notin> set xs" "ProtoUnmarshal x \<notin> set xs"
    "(if json then ProtoMarshal m else MarshalToString m) \<notin> set xs"
    "HeaderSet k v \<in> set xs \<Longrightarrow> k = ''Content-Type''
       \<and> v = (if json then ''application/json'' else ''application/octet-stream'')"
  using assms by (auto simp: list_all_iff)

lemma no_ErrorResponse_in_logs:
  "EvErrorResponse c \<notin> set (logError cfg t e)"
  "EvErrorResponse c \<notin> set (logPanic cfg v)"
  "EvErrorResponse c \<notin> set (logStartRequest cfg me u)"
  "EvErrorResponse c \<notin> set (logEndRequest cfg me u s)"
  "EvErrorResponse c \<notin> set (logRequestMessage cfg m)"
  "EvErrorResponse c \<notin> set (logResponseMessage cfg m)"
  "EvErrorResponse c \<notin> set (logRequestBytes cfg b)"
  "EvErrorResponse c \<notin> set (logResponseBytes cfg b)"
  "EvErrorResponse c \<notin> set (logRequestJSON cfg b)"
  "EvErrorResponse c \<notin> set (logResponseJSON cfg b)"
  by (simp_all add: logError_def logPanic_def logStartRequest_def logEndRequest_def
        logRequestMessage_def logResponseMessage_def logRequestBytes_def logResponseBytes_def
        logRequestJSON_def logResponseJSON_def)

subsection \<open>The constructor\<close>

lemma length1: "length xs = Suc 0 \<Longrightarrow> \<exists>a. xs = [a]"
  by (cases xs) auto

lemma length2: "length xs = 2 \<Longrightarrow> \<exists>a b. xs = [a, b]"
  by (cases xs; cases "tl xs") auto

lemma length3: "length xs = 3 \<Longrightarrow> \<exists>a b c. xs = [a, b, c]"
  by (cases xs; cases "tl xs"; cases "tl (tl xs)") auto

lemma classify_Inr:
  assumes "classify ins = Inr (ht, rt, pt)"
  shows "(\<exists>t. ins = [t] \<and> ht = messageHandlerType \<and> rt = t \<and> pt = None)
       \<or> (\<exists>t. ins = [contextType, t] \<and> ht = contextHandlerType \<and> rt = t \<and> pt = None)
       \<or> (\<exists>t. ins = [requestType, t] \<and> ht = requestHandlerType \<and> rt = t \<and> pt = None)
       \<or> (\<exists>p t. ins = [p, t] \<and> p \<noteq> contextType \<and> p \<noteq> requestType
             \<and> ht = paramHandlerType \<and> rt = t \<and> pt = Some p)
       \<or> (\<exists>p t. ins = [contextType, p, t] \<and> ht = contextParamHandlerType \<and> rt = t \<and> pt = Some p)
       \<or> (\<exists>p t. ins = [requestType, p, t] \<and> ht = requestParamHandlerType \<and> rt = t \<and> pt = Some p)"
proof -
  consider "length ins = Suc 0" | "length ins = 2" | "length ins = 3"
    using assms by (auto simp: classify_def split: if_splits)
  then show ?thesis
  proof cases
    case 1
    then obtain a where "ins = [a]" using length1 by blast
    with assms show ?thesis by (simp add: classify_def)
  next
    case 2
    then obtain a b where "ins = [a, b]" using length2 by blast
    with assms show ?thesis by (auto simp: classify_def split: if_splits)
  next
    case 3
    then obtain a b c where "ins = [a, b, c]" using length3 by blast
    with assms show ?thesis by (auto simp: classify_def split: if_splits)
  qed
qed

lemma constructed:
  assumes "UPSWithParameterAndConfig rf h param cfg = Inr ups"
  shows "\<exists>ht rt pt. check_returns rf (Out h) = None \<and> classify (In h) = Inr (ht, rt, pt)
          \<and> Implements rf rt messageType \<and> check_parameter rf param pt = None
          \<and> ups = \<lparr>config = cfg, handlerType = ht, handler = h, parameter = param,
                    requestObjectPool = \<lparr>New = New_Elem rf rt, items = []\<rparr>\<rparr>"
  using assms
  by (auto simp: UPSWithParameterAndConfig_def split: option.splits sum.splits prod.splits if_splits)

lemma construct_ok_iff:
  "(\<exists>ups. UPSWithParameterAndConfig rf h param cfg = Inr ups) \<longleftrightarrow>
     (length (Out h) = 1 \<or> length (Out h) = 2)
     \<and> Implements rf (Out h ! 0) messageType
     \<and> (length (Out h) = 2 \<longrightarrow> Implements rf (Out h ! 1) errorType)
     \<and> (length (In h) = 1 \<or> length (In h) = 2 \<or> length (In h) = 3)
     \<and> (length (In h) = 3 \<longrightarrow> In h ! 0 = contextType \<or> In h ! 0 = requestType)
     \<and> Implements rf (last (In h)) messageType
     \<and> (length (In h) = 2 \<and> In h ! 0 \<noteq> contextType \<and> In h ! 0 \<noteq> requestType \<longrightarrow>
          (\<exists>t v. param = Some (t, v) \<and> AssignableTo rf t (In h ! 0)))
     \<and> (length (In h) = 3 \<longrightarrow> (\<exists>t v. param = Some (t, v) \<and> AssignableTo rf t (In h ! 1)))"
  (is "?L \<longleftrightarrow> ?R")
proof
  assume ?L
  then obtain ups where "UPSWithParameterAndConfig rf h param cfg = Inr ups" by blast
  from constructed[OF this] obtain ht rt pt where
    c: "check_returns rf (Out h) = None" "classify (In h) = Inr (ht, rt, pt)"
       "Implements rf rt messageType" "check_parameter rf param pt = None"
    by blast
  from c(1) have outs: "(length (Out h) = 1 \<or> length (Out h) = 2)
     \<and> Implements rf (Out h ! 0) messageType
     \<and> (length (Out h) = 2 \<longrightarrow> Implements rf (Out h ! 1) errorType)"
    by (auto simp: check_returns_def split: if_splits)
  from classify_Inr[OF c(2)] c(3,4) have "(length (In h) = 1 \<or> length (In h) = 2 \<or> length (In h) = 3)
     \<and> (length (In h) = 3 \<longrightarrow> In h ! 0 = contextType \<or> In h ! 0 = requestType)
     \<and> Implements rf (last (In h)) messageType
     \<and> (length (In h) = 2 \<and> In h ! 0 \<noteq> contextType \<and> In h ! 0 \<noteq> requestType \<longrightarrow>
          (\<exists>t v. param = Some (t, v) \<and> AssignableTo rf t (In h ! 0)))
     \<and> (length (In h) = 3 \<longrightarrow> (\<exists>t v. param = Some (t, v) \<and> AssignableTo rf t (In h ! 1)))"
    by (elim disjE exE conjE)
       (auto simp: check_parameter_def split: option.splits prod.splits if_splits)
  with outs show ?R by blast
next
  assume R: ?R
  then have outs: "check_returns rf (Out h) = None"
    by (auto simp: check_returns_def)
  from R consider "length (In h) = Suc 0" | "length (In h) = 2" | "length (In h) = 3" by auto
  then show ?L
  proof cases
    case 1
    then obtain a where "In h = [a]" using length1 by blast
    with R outs show ?thesis
      by (simp add: UPSWithParameterAndConfig_def classify_def check_parameter_def)
  next
    case 2
    then obtain a b where "In h = [a, b]" using length2 by blast
    with R outs show ?thesis
      by (auto simp: UPSWithParameterAndConfig_def classify_def check_parameter_def)
  next
    case 3
    then obtain a b c where "In h = [a, b, c]" using length3 by blast
    with R outs show ?thesis
      by (auto simp: UPSWithParameterAndConfig_def classify_def check_parameter_def)
  qed
qed

lemma constructed_variant:
  assumes "UPSWithParameterAndConfig rf h param cfg = Inr ups"
  shows "parameter ups = param
     \<and> ((\<exists>t. In h = [t] \<and> handlerType ups = messageHandlerType)
       \<or> (\<exists>t. In h = [contextType, t] \<and> handlerType ups = contextHandlerType)
       \<or> (\<exists>t. In h = [requestType, t] \<and> handlerType ups = requestHandlerType)
       \<or> (\<exists>p t. In h = [p, t] \<and> p \<noteq> contextType \<and> p \<noteq> requestType
             \<and> handlerType ups = paramHandlerType)
       \<or> (\<exists>p t. In h = [contextType, p, t] \<and> handlerType ups = contextParamHandlerType)
       \<or> (\<exists>p t. In h = [requestType, p, t] \<and> handlerType ups = requestParamHandlerType))"
proof -
  from constructed[OF assms] obtain ht rt pt where
    c: "classify (In h) = Inr (ht, rt, pt)"
       "ups = \<lparr>config = cfg, handlerType = ht, handler = h, parameter = param,
                requestObjectPool = \<lparr>New = New_Elem rf rt, items = []\<rparr>\<rparr>"
    by blast
  from classify_Inr[OF c(1)] c(2) show ?thesis
    by (elim disjE exE conjE) simp_all
qed

subsection \<open>The requests of the test\<close>

lemmas fixture_defs =
  hello_lib_def DefaultConfig_def hello_func_def error_func_def test_error_func_def
  context_param_func_def hello_handler_def error_handler_def test_error_handler_def
  context_param_handler_def recorder_def post_def
  json_request_def protobuf_request_def panic_request_def teapot_request_def ok_error_request_def
  thousand_request_def text_plain_request_def get_request_def broken_body_request_def
  json_name_def wire_name_def hello_json_def hello_wire_def testingups_reflect_def
  negotiate_def unmarshal_def Header_Get_def Pool_Get_def Pool_Put_def call_args_def

lemma json_request_path:
  "Method json_request = MethodPost"
  \<open>Body json_request = BodyData ''{"name":"World"}''\<close>
  "negotiate hello_lib (config hello_handler) (Header_Get (Header json_request) ''Content-Type'') = Accept True"
  \<open>unmarshal hello_lib True ''{"name":"World"}'' (fst (Pool_Get (requestObjectPool hello_handler)))
     = (HelloRequest ''World'', None)\<close>
  "Call (handler hello_handler) (call_args hello_handler json_request (HelloRequest ''World''))
     = Return1 (HelloResponse ''Hello, World!'')
   \<or> Call (handler hello_handler) (call_args hello_handler json_request (HelloRequest ''World''))
     = Return2 (HelloResponse ''Hello, World!'') None
     \<and> IsNil_panic hello_lib (handler hello_handler) = None"
  "True \<longrightarrow> JSONMarshaler (config hello_handler) = Some hello_json"
  \<open>(if True then hello_json (HelloResponse ''Hello, World!'')
    else proto_Marshal hello_lib (HelloResponse ''Hello, World!'')) = Inr ''{"text":"Hello, World!"}''\<close>
  by (simp_all add: fixture_defs)

lemma json_request_served:
  "\<exists>f. ServeHTTP hello_lib hello_handler recorder json_request = Some (f, None) \<and> statusCode f = 200"
proof -
  note R = recovered_encoded[OF json_request_path]
  have "recorder 0 (resp (recovered hello_lib hello_handler json_request (frame0 hello_handler))) = (24, None)"
       "length (resp (recovered hello_lib hello_handler json_request (frame0 hello_handler))) \<le> 24"
    unfolding R(2) by (simp_all add: recorder_def)
  from ServeHTTP_ok_full_write[where w = recorder and n = 24, OF R(1) this] show ?thesis by blast
qed

lemma panic_request_path:
  "Method panic_request = MethodPost"
  "Body panic_request = BodyData (CHR 0x0A # CHR 0x05 # ''panic'')"
  "negotiate hello_lib (config hello_handler) (Header_Get (Header panic_request) ''Content-Type'') = Accept False"
  "unmarshal hello_lib False (CHR 0x0A # CHR 0x05 # ''panic'')
     (fst (Pool_Get (requestObjectPool hello_handler))) = (HelloRequest ''panic'', None)"
  "Call (handler hello_handler) (call_args hello_handler panic_request (HelloRequest ''panic''))
     = Panics ''panic''"
  by (simp_all add: fixture_defs)

lemma teapot_request_path:
  "Method teapot_request = MethodPost"
  \<open>Body teapot_request = BodyData ''{"name":"Teapot"}''\<close>
  "negotiate hello_lib (config error_handler) (Header_Get (Header teapot_request) ''Content-Type'') = Accept True"
  \<open>unmarshal hello_lib True ''{"name":"Teapot"}'' (fst (Pool_Get (requestObjectPool error_handler)))
     = (HelloRequest ''Teapot'', None)\<close>
  "Call (handler error_handler) (call_args error_handler teapot_request (HelloRequest ''Teapot''))
     = Return2 NilHello (Some (StatusCoderError ''418'' 418))"
  "IsNil_panic hello_lib (handler error_handler) = None"
  by (simp_all add: fixture_defs IsNil_panic_def Kind_def)

lemma ok_error_request_path:
  "Method ok_error_request = MethodPost"
  \<open>Body ok_error_request = BodyData ''{"name":"OK"}''\<close>
  "negotiate hello_lib (config error_handler) (Header_Get (Header ok_error_request) ''Content-Type'') = Accept True"
  \<open>unmarshal hello_lib True ''{"name":"OK"}'' (fst (Pool_Get (requestObjectPool error_handler)))
     = (HelloRequest ''OK'', None)\<close>
  "Call (handler error_handler) (call_args error_handler ok_error_request (HelloRequest ''OK''))
     = Return2 NilHello (Some (StatusCoderError ''200'' 200))"
  "IsNil_panic hello_lib (handler error_handler) = None"
  by (simp_all add: fixture_defs IsNil_panic_def Kind_def)

lemma thousand_request_path:
  "Method thousand_request = MethodPost"
  \<open>Body thousand_request = BodyData ''{"name":"1000"}''\<close>
  "negotiate hello_lib (config error_handler) (Header_Get (Header thousand_request) ''Content-Type'') = Accept True"
  \<open>unmarshal hello_lib True ''{"name":"1000"}'' (fst (Pool_Get (requestObjectPool error_handler)))
     = (HelloRequest ''1000'', None)\<close>
  "Call (handler error_handler) (call_args error_handler thousand_request (HelloRequest ''1000''))
     = Return2 NilHello (Some (StatusCoderError ''1000'' 1000))"
  "IsNil_panic hello_lib (handler error_handler) = None"
  by (simp_all add: fixture_defs IsNil_panic_def Kind_def)

lemma test_error_ok_request_path:
  "Method ok_error_request = MethodPost"
  \<open>Body ok_error_request = BodyData ''{"name":"OK"}''\<close>
  "negotiate hello_lib (config test_error_handler) (Header_Get (Header ok_error_request) ''Content-Type'') = Accept True"
  \<open>unmarshal hello_lib True ''{"name":"OK"}'' (fst (Pool_Get (requestObjectPool test_error_handler)))
     = (HelloRequest ''OK'', None)\<close>
  "Call (handler test_error_handler) (call_args test_error_handler ok_error_request (HelloRequest ''OK''))
     = Return2 NilHello (Some (StatusCoderError ''200'' 200))"
  "IsNil_panic hello_lib (handler test_error_handler)
     = Some ''reflect: call of reflect.Value.IsNil on int Value''"
  by (simp_all add: fixture_defs IsNil_panic_def Kind_def)

lemma Itoa_1000: "Itoa 1000 = ''1000''"
  by (simp add: Itoa_def)

subsection \<open>The response\<close>

text \<open>
  Only the calls on the writer count for the response.
\<close>

lemma reply_writer_ops: "reply w k xs s = reply w k (writer_ops xs) s"
  by (induction w k xs s rule: reply.induct) (simp_all split: option.splits)

lemma answer_writer_ops: "answer w (f, pan) = reply w 0 (writer_ops (ops f)) NewRecorder"
  by (simp add: answer_def reply_writer_ops[symmetric])

lemma answer_error:
  assumes "writer_ops (ops f) = [HttpError text c]" and "100 \<le> c" and "c \<le> 999"
  shows "answer w (f, pan) =
     \<lparr>Code = c,
      HeaderMap = [(''X-Content-Type-Options'', ''nosniff''),
                   (''Content-Type'', ''text/plain; charset=utf-8'')],
      Bytes = take (fst (w 0 (text @ [CHR 0x0A]))) (text @ [CHR 0x0A])\<rparr>"
  using assms by (simp add: answer_writer_ops NewRecorder_def)


section \<open>The claims\<close>

text \<open>
  Claim C1.  A handler func that the constructor accepts has one of six parameter
  shapes, and the variant kept for it is the one the shape names: one parameter is
  message-only; two parameters are context+message, request+message or, with any
  other first type, parameter+message; three parameters start with the context or
  the request type and have the bound parameter in the middle.  Whenever
  \<open>ServeHTTP\<close>, from any state of the pool, calls the handler, whether it then
  returns or not, the arguments are the
  context or the request first (when the shape has one), then the bound parameter
  (when the shape has one), then the message that was decoded from the body.  A func
  with no parameter, with more than three, with three of which the first is neither
  the context nor the request type, or whose last parameter is not a message type is
  refused: the constructor panics.
\<close>

theorem binder_variant_and_argument_order:
  "(UPSWithParameterAndConfig rf h param cfg = Inr ups \<longrightarrow>
      ((\<exists>t. In h = [t] \<and> handlerType ups = messageHandlerType)
       \<or> (\<exists>t. In h = [contextType, t] \<and> handlerType ups = contextHandlerType)
       \<or> (\<exists>t. In h = [requestType, t] \<and> handlerType ups = requestHandlerType)
       \<or> (\<exists>p t. In h = [p, t] \<and> p \<noteq> contextType \<and> p \<noteq> requestType
             \<and> handlerType ups = paramHandlerType)
       \<or> (\<exists>p t. In h = [contextType, p, t] \<and> handlerType ups = contextParamHandlerType)
       \<or> (\<exists>p t. In h = [requestType, p, t] \<and> handlerType ups = requestParamHandlerType))
      \<and> (\<forall>lb pl w r f pan args.
            ServeHTTP lb (ups\<lparr>requestObjectPool := pl\<rparr>) w r = Some (f, pan)
            \<and> CallHandler args \<in> set (ops f) \<longrightarrow>
            (\<exists>req json m. Body r = BodyData req
               \<and> unmarshal lb json req (fst (Pool_Get pl)) = (m, None)
               \<and> args =
                   (if 2 \<le> length (In h) \<and> In h ! 0 = contextType then [CtxVal (Context r)]
                    else if 2 \<le> length (In h) \<and> In h ! 0 = requestType then [ReqVal r]
                    else [])
                   @ (if length (In h) = 3
                         \<or> (length (In h) = 2 \<and> In h ! 0 \<noteq> contextType \<and> In h ! 0 \<noteq> requestType)
                      then [ParamVal param] else [])
                   @ [MsgVal m])))
   \<and> (length (In h) = 0 \<or> 3 < length (In h)
        \<or> (length (In h) = 3 \<and> In h ! 0 \<noteq> contextType \<and> In h ! 0 \<noteq> requestType)
        \<or> \<not> Implements rf (last (In h)) messageType
      \<longrightarrow> (\<exists>e. UPSWithParameterAndConfig rf h param cfg = Inl e))"
proof (intro conjI impI allI)
  assume c: "UPSWithParameterAndConfig rf h param cfg = Inr ups"
  from constructed_variant[OF c]
  show "(\<exists>t. In h = [t] \<and> handlerType ups = messageHandlerType)
       \<or> (\<exists>t. In h = [contextType, t] \<and> handlerType ups = contextHandlerType)
       \<or> (\<exists>t. In h = [requestType, t] \<and> handlerType ups = requestHandlerType)
       \<or> (\<exists>p t. In h = [p, t] \<and> p \<noteq> contextType \<and> p \<noteq> requestType
             \<and> handlerType ups = paramHandlerType)
       \<or> (\<exists>p t. In h = [contextType, p, t] \<and> handlerType ups = contextParamHandlerType)
       \<or> (\<exists>p t. In h = [requestType, p, t] \<and> handlerType ups = requestParamHandlerType)"
    by blast
next
  fix lb :: "'b lib" and pl w r f pan and args :: "('a, 'b) val list"
  assume c: "UPSWithParameterAndConfig rf h param cfg = Inr ups"
    and s: "ServeHTTP lb (ups\<lparr>requestObjectPool := pl\<rparr>) w r = Some (f, pan)
            \<and> CallHandler args \<in> set (ops f)"
  from ServeHTTP_calls[of lb "ups\<lparr>requestObjectPool := pl\<rparr>" w r f pan args] s
  obtain req json m where
    d: "Body r = BodyData req" "unmarshal lb json req (fst (Pool_Get pl)) = (m, None)"
       "args = call_args (ups\<lparr>requestObjectPool := pl\<rparr>) r m"
    by auto
  from constructed_variant[OF c] have
    "call_args (ups\<lparr>requestObjectPool := pl\<rparr>) r m =
       (if 2 \<le> length (In h) \<and> In h ! 0 = contextType then [CtxVal (Context r)]
        else if 2 \<le> length (In h) \<and> In h ! 0 = requestType then [ReqVal r]
        else [])
       @ (if length (In h) = 3
             \<or> (length (In h) = 2 \<and> In h ! 0 \<noteq> contextType \<and> In h ! 0 \<noteq> requestType)
          then [ParamVal param] else [])
       @ [MsgVal m]"
    by (elim disjE exE conjE) (simp_all add: call_args_def)
  with d show "\<exists>req json m. Body r = BodyData req
       \<and> unmarshal lb json req (fst (Pool_Get pl)) = (m, None)
       \<and> args =
           (if 2 \<le> length (In h) \<and> In h ! 0 = contextType then [CtxVal (Context r)]
            else if 2 \<le> length (In h) \<and> In h ! 0 = requestType then [ReqVal r]
            else [])
           @ (if length (In h) = 3
                 \<or> (length (In h) = 2 \<and> In h ! 0 \<noteq> contextType \<and> In h ! 0 \<noteq> requestType)
              then [ParamVal param] else [])
           @ [MsgVal m]"
    by blast
next
  assume bad: "length (In h) = 0 \<or> 3 < length (In h)
        \<or> (length (In h) = 3 \<and> In h ! 0 \<noteq> contextType \<and> In h ! 0 \<noteq> requestType)
        \<or> \<not> Implements rf (last (In h)) messageType"
  have "\<not> (\<exists>ups. UPSWithParameterAndConfig rf h param cfg = Inr ups)"
    using bad by (subst construct_ok_iff) auto
  then show "\<exists>e. UPSWithParameterAndConfig rf h param cfg = Inl e"
    by (cases "UPSWithParameterAndConfig rf h param cfg") auto
qed

text \<open>
  The func \<open>handlerContextParam\<close> of the test, bound to the parameter 1, is accepted
  as context+parameter+message, and a JSON request reaches it with the context, the
  parameter and the decoded message, in this order.
\<close>

theorem binder_variant_and_argument_order_witness:
  "UPSWithParameterAndConfig testingups_reflect context_param_func (Some (namedType ''int'', 1)) DefaultConfig
     = Inr context_param_handler
   \<and> handlerType context_param_handler = contextParamHandlerType
   \<and> (\<exists>f args. ServeHTTP hello_lib context_param_handler recorder json_request = Some (f, None)
         \<and> CallHandler args \<in> set (ops f)
         \<and> args = [CtxVal 0, ParamVal (Some (namedType ''int'', 1)), MsgVal (HelloRequest ''World'')])"
proof -
  have c: "UPSWithParameterAndConfig testingups_reflect context_param_func
             (Some (namedType ''int'', 1)) DefaultConfig = Inr context_param_handler"
    by (simp add: UPSWithParameterAndConfig_def check_returns_def classify_def check_parameter_def
          fixture_defs)
  have i: "In context_param_func = [contextType, namedType ''int'', namedType ''*testingups.HelloRequest'']"
    by (simp add: fixture_defs)
  note T = binder_variant_and_argument_order[of testingups_reflect context_param_func
      "Some (namedType ''int'', 1)" DefaultConfig context_param_handler]
  from T c have v: "(\<exists>t. In context_param_func = [t] \<and> handlerType context_param_handler = messageHandlerType)
       \<or> (\<exists>t. In context_param_func = [contextType, t] \<and> handlerType context_param_handler = contextHandlerType)
       \<or> (\<exists>t. In context_param_func = [requestType, t] \<and> handlerType context_param_handler = requestHandlerType)
       \<or> (\<exists>p t. In context_param_func = [p, t] \<and> p \<noteq> contextType \<and> p \<noteq> requestType
             \<and> handlerType context_param_handler = paramHandlerType)
       \<or> (\<exists>p t. In context_param_func = [contextType, p, t] \<and> handlerType context_param_handler = contextParamHandlerType)
       \<or> (\<exists>p t. In context_param_func = [requestType, p, t] \<and> handlerType context_param_handler = requestParamHandlerType)"
    by blast
  then have ht: "handlerType context_param_handler = contextParamHandlerType"
    unfolding i by simp
  from T c have d: "ServeHTTP lb (context_param_handler\<lparr>requestObjectPool := pl\<rparr>) w r = Some (f, pan)
            \<and> CallHandler args \<in> set (ops f) \<longrightarrow>
            (\<exists>req json m. Body r = BodyData req
               \<and> unmarshal lb json req (fst (Pool_Get pl)) = (m, None)
               \<and> args =
                   (if 2 \<le> length (In context_param_func) \<and> In context_param_func ! 0 = contextType then [CtxVal (Context r)]
                    else if 2 \<le> length (In context_param_func) \<and> In context_param_func ! 0 = requestType then [ReqVal r]
                    else [])
                   @ (if length (In context_param_func) = 3
                         \<or> (length (In context_param_func) = 2 \<and> In context_param_func ! 0 \<noteq> contextType \<and> In context_param_func ! 0 \<noteq> requestType)
                      then [ParamVal (Some (namedType ''int'', 1))] else [])
                   @ [MsgVal m])" for lb pl w r f pan args
    by blast
  have p: "context_param_handler\<lparr>requestObjectPool := requestObjectPool context_param_handler\<rparr>
      = context_param_handler" by simp
  have h1: "Method json_request = MethodPost" by (simp add: fixture_defs)
  have h2: \<open>Body json_request = BodyData ''{"name":"World"}''\<close> by (simp add: fixture_defs)
  have h3: "negotiate hello_lib (config context_param_handler)
              (Header_Get (Header json_request) ''Content-Type'') = Accept True"
    by (simp add: fixture_defs)
  have h4: \<open>unmarshal hello_lib True ''{"name":"World"}''
              (fst (Pool_Get (requestObjectPool context_param_handler))) = (HelloRequest ''World'', None)\<close>
    by (simp add: fixture_defs)
  have h5: "Call (handler context_param_handler)
              (call_args context_param_handler json_request (HelloRequest ''World''))
              = Return1 (HelloResponse ''ContextParameter, World!'')
            \<or> Call (handler context_param_handler)
              (call_args context_param_handler json_request (HelloRequest ''World''))
              = Return2 (HelloResponse ''ContextParameter, World!'') None
              \<and> IsNil_panic hello_lib (handler context_param_handler) = None"
    by (simp add: fixture_defs)
  have h6: "True \<longrightarrow> JSONMarshaler (config context_param_handler) = Some hello_json"
    by (simp add: fixture_defs)
  have h7: \<open>(if True then hello_json (HelloResponse ''ContextParameter, World!'')
             else proto_Marshal hello_lib (HelloResponse ''ContextParameter, World!''))
            = Inr ''{"text":"ContextParameter, World!"}''\<close>
    by (simp add: fixture_defs)
  note R = recovered_encoded[OF h1 h2 h3 h4 h5 h6 h7]
  have "recorder 0 (resp (recovered hello_lib context_param_handler json_request (frame0 context_param_handler)))
          = (35, None)"
       "length (resp (recovered hello_lib context_param_handler json_request (frame0 context_param_handler))) \<le> 35"
    unfolding R(2) by (simp_all add: recorder_def)
  from ServeHTTP_ok_full_write[where w = recorder and n = 35, OF R(1) this] obtain f where
    f: "ServeHTTP hello_lib context_param_handler recorder json_request = Some (f, None)"
       "ops f = ops (recovered hello_lib context_param_handler json_request (frame0 context_param_handler))
                @ [Write (resp (recovered hello_lib context_param_handler json_request (frame0 context_param_handler)))]"
    by blast
  have m: "CallHandler (call_args context_param_handler json_request (HelloRequest ''World'')) \<in> set (ops f)"
    unfolding f(2) R(5) by simp
  from d[of hello_lib "requestObjectPool context_param_handler" recorder json_request f None
        "call_args context_param_handler json_request (HelloRequest ''World'')"] f(1) m
  obtain req json m' where
    "call_args context_param_handler json_request (HelloRequest ''World'') =
       [CtxVal (Context json_request), ParamVal (Some (namedType ''int'', 1)), MsgVal m']"
    unfolding p i by auto
  then have "call_args context_param_handler json_request (HelloRequest ''World'') =
       [CtxVal 0, ParamVal (Some (namedType ''int'', 1)), MsgVal (HelloRequest ''World'')]"
    by (simp add: fixture_defs)
  with c ht f(1) m show ?thesis by metis
qed

text \<open>
  Claim C2.  In every dispatch that ends, by a return or by the panic of
  \<open>http.Error\<close>, the operations on the pool are either
  none (the request did not get as far as the decode step, and the pool is as it
  was) or exactly three, in this order: one \<open>Get\<close>, one \<open>Reset\<close> of the message, one
  \<open>Put\<close> of the message as \<open>Reset\<close> left it.  The second case is the one of every
  request that was accepted, whatever came after the \<open>Get\<close>: a decode failure, an
  error of the handler, a panic or a success.  Afterwards the pool has the same
  \<open>New\<close>, it holds no fewer messages than before, and each of them was in the pool
  before or is the result of a \<open>Reset\<close>.
\<close>

theorem pooled_message_released_once:
  assumes "ServeHTTP lb ups w r = Some (f, pan)"
  shows "((\<not> accepted lb ups r \<and> pool_ops (ops f) = [] \<and> pool f = requestObjectPool ups)
        \<or> (accepted lb ups r
            \<and> (\<exists>m. pool_ops (ops f) =
                      [PoolGet (fst (Pool_Get (requestObjectPool ups))), MessageReset m, PoolPut (Reset lb m)]
                  \<and> pool f = Pool_Put (snd (Pool_Get (requestObjectPool ups))) (Reset lb m))))
       \<and> New (pool f) = New (requestObjectPool ups)
       \<and> length (items (requestObjectPool ups)) \<le> length (items (pool f))
       \<and> (\<forall>x\<in>set (items (pool f)). x \<in> set (items (requestObjectPool ups)) \<or> (\<exists>m. x = Reset lb m))"
proof -
  have tl: "set (items (snd (Pool_Get p))) \<subseteq> set (items p)
      \<and> length (items p) \<le> Suc (length (items (snd (Pool_Get p))))
      \<and> New (snd (Pool_Get p)) = New p" for p :: "'b Pool"
    by (cases "items p") (auto simp: Pool_Get_def)
  from ServeHTTP_pool_ops[OF assms] show ?thesis
  proof (elim disjE conjE exE)
    assume "\<not> accepted lb ups r" "pool_ops (ops f) = []" "pool f = requestObjectPool ups"
    then show ?thesis by simp
  next
    fix m
    assume a: "accepted lb ups r"
      "pool_ops (ops f) = [PoolGet (fst (Pool_Get (requestObjectPool ups))), MessageReset m, PoolPut (Reset lb m)]"
      "pool f = Pool_Put (snd (Pool_Get (requestObjectPool ups))) (Reset lb m)"
    from a(3) tl[of "requestObjectPool ups"]
    have "New (pool f) = New (requestObjectPool ups)"
      "length (items (requestObjectPool ups)) \<le> length (items (pool f))"
      "\<forall>x\<in>set (items (pool f)). x \<in> set (items (requestObjectPool ups)) \<or> (\<exists>m. x = Reset lb m)"
      by (auto simp: Pool_Put_def)
    with a show ?thesis by blast
  qed
qed

text \<open>
  The request of the test on which the handler panics: the message is taken, reset
  and put back, and the pool then holds the one empty message.
\<close>

theorem pooled_message_released_once_witness:
  "accepted hello_lib hello_handler panic_request
   \<and> (\<exists>f. ServeHTTP hello_lib hello_handler recorder panic_request = Some (f, None)
        \<and> pool_ops (ops f) = [PoolGet (HelloRequest []), MessageReset (HelloRequest ''panic''),
                              PoolPut (HelloRequest [])]
        \<and> items (pool f) = [HelloRequest []])"
proof -
  have a: "accepted hello_lib hello_handler panic_request"
    by (simp add: accepted_def fixture_defs)
  note R = recovered_panics[OF panic_request_path]
  from ServeHTTP_error_status[OF R(1), where w = recorder] obtain f where
    f: "ServeHTTP hello_lib hello_handler recorder panic_request = Some (f, None)"
       "ops f = ops (recovered hello_lib hello_handler panic_request (frame0 hello_handler))
                @ [HttpError (errorResponse (config hello_handler) 500) 500]"
    by auto
  from f(2) have m: "MessageReset (HelloRequest ''panic'') \<in> set (pool_ops (ops f))"
    unfolding R(5) by simp
  from pooled_message_released_once[OF f(1)] a obtain m' where
    p: "pool_ops (ops f) =
          [PoolGet (fst (Pool_Get (requestObjectPool hello_handler))), MessageReset m', PoolPut (Reset hello_lib m')]"
       "pool f = Pool_Put (snd (Pool_Get (requestObjectPool hello_handler))) (Reset hello_lib m')"
    by blast
  from m have m': "m' = HelloRequest ''panic''" unfolding p(1) by simp
  from p have "pool_ops (ops f) = [PoolGet (HelloRequest []), MessageReset (HelloRequest ''panic''),
                              PoolPut (HelloRequest [])]"
      "items (pool f) = [HelloRequest []]"
    unfolding m' by (simp_all add: fixture_defs)
  with a f(1) show ?thesis by blast
qed

text \<open>
  Claim C3, as it holds.  The claim is about a handler whose second result is declared
  with a type that can be nil, as \<open>error\<close> is, so that \<open>IsNil\<close> at line 358 returns.
  When a request reaches such a handler and the handler returns an error that is not
  nil, nothing is encoded: after the call the only operations are the release of the
  message and the answer.  The status that \<open>ServeHTTP\<close> answers with is the value of
  \<open>StatusCode()\<close> as it stands when the error is a \<open>StatusCoder\<close>, and 500 when it
  is not; it is handed to \<open>http.Error\<close>, or it is the 200 of one write of no bytes.
  When this status lies between 100 and 999, \<open>ServeHTTP\<close> returns, the response has
  this status, and \<open>LogEndRequest\<close> is called with it.  When it is below 100 or above
  999, \<open>WriteHeader\<close> panics with it: the panic leaves \<open>ServeHTTP\<close>, no byte is written
  and \<open>LogEndRequest\<close> is not called.
\<close>

theorem handler_error_sets_status_without_encoding:
  assumes "Method r = MethodPost" and "Body r = BodyData req"
    and "negotiate lb (config ups) (Header_Get (Header r) ''Content-Type'') = Accept json"
    and "unmarshal lb json req (fst (Pool_Get (requestObjectPool ups))) = (arg, None)"
    and "Call (handler ups) (call_args ups r arg) = Return2 m (Some e)"
    and "IsNil_panic lb (handler ups) = None"
  shows "\<exists>f pan. ServeHTTP lb ups w r = Some (f, pan)
     \<and> statusCode f = (case e of StatusCoderError s code \<Rightarrow> code | PlainError s \<Rightarrow> 500)
     \<and> resp f = []
     \<and> ops f = [ReadFrom, ParseMediaType (Header_Get (Header r) ''Content-Type''),
               PoolGet (fst (Pool_Get (requestObjectPool ups))),
               if json then JsonUnmarshal req else ProtoUnmarshal req,
               CallHandler (call_args ups r arg), MessageReset arg, PoolPut (Reset lb arg),
               if statusCode f = 200 then Write []
               else HttpError (errorResponse (config ups) (statusCode f)) (statusCode f)]
     \<and> (\<forall>x. MarshalToString x \<notin> set (ops f) \<and> ProtoMarshal x \<notin> set (ops f))
     \<and> (100 \<le> statusCode f \<and> statusCode f \<le> 999 \<longrightarrow>
          pan = None \<and> Code (answer w (f, pan)) = statusCode f
          \<and> (LogEndRequest (config ups) \<longrightarrow>
                EvLogEndRequest (Method r) (URL r) (statusCode f) \<in> set (hooks f)))
     \<and> (statusCode f < 100 \<or> 999 < statusCode f \<longrightarrow>
          pan = Some (''invalid WriteHeader code '' @ Itoa (statusCode f))
          \<and> Bytes (answer w (f, pan)) = []
          \<and> hooks f = logStartRequest (config ups) (Method r) (URL r)
                      @ (if json then logRequestJSON (config ups) req else logRequestBytes (config ups) req)
                      @ logRequestMessage (config ups) arg
                      @ errorResponse_call (config ups) (statusCode f))"
proof -
  note R = recovered_handler_error[OF assms]
  define c where "c = (case e of StatusCoderError s code \<Rightarrow> code | PlainError s \<Rightarrow> 500)"
  have Rc: "statusCode (recovered lb ups r (frame0 ups)) = c"
    using R(1) by (simp add: c_def)
  have Ro: "ops (recovered lb ups r (frame0 ups)) =
      [ReadFrom, ParseMediaType (Header_Get (Header r) ''Content-Type''),
       PoolGet (fst (Pool_Get (requestObjectPool ups))),
       if json then JsonUnmarshal req else ProtoUnmarshal req,
       CallHandler (call_args ups r arg), MessageReset arg, PoolPut (Reset lb arg)]"
    using R(5) by (simp add: before_call_ops_def)
  have Rh: "hooks (recovered lb ups r (frame0 ups)) =
      logStartRequest (config ups) (Method r) (URL r)
      @ (if json then logRequestJSON (config ups) req else logRequestBytes (config ups) req)
      @ logRequestMessage (config ups) arg"
    using R(4) by (simp add: before_call_hooks_def)
  have "\<exists>f pan. ServeHTTP lb ups w r = Some (f, pan) \<and> statusCode f = c \<and> resp f = []
     \<and> ops f = ops (recovered lb ups r (frame0 ups))
               @ [if c = 200 then Write [] else HttpError (errorResponse (config ups) c) c]
     \<and> (100 \<le> c \<and> c \<le> 999 \<longrightarrow>
          pan = None \<and> Code (answer w (f, pan)) = c
          \<and> (LogEndRequest (config ups) \<longrightarrow> EvLogEndRequest (Method r) (URL r) c \<in> set (hooks f)))
     \<and> (c < 100 \<or> 999 < c \<longrightarrow>
          pan = Some (''invalid WriteHeader code '' @ Itoa c)
          \<and> Bytes (answer w (f, pan)) = []
          \<and> hooks f = hooks (recovered lb ups r (frame0 ups)) @ errorResponse_call (config ups) c)"
  proof (cases "c = 200")
    case True
    with Rc have "statusCode (recovered lb ups r (frame0 ups)) = 200" by simp
    from ServeHTTP_ok_empty[OF this R(2), where w = w] obtain f es where
      f: "ServeHTTP lb ups w r = Some (f, None)" "statusCode f = 200" "resp f = []"
         "hooks f = hooks (recovered lb ups r (frame0 ups)) @ es
                     @ logEndRequest (config ups) (Method r) (URL r) 200"
         "ops f = ops (recovered lb ups r (frame0 ups)) @ [Write []]"
      by blast
    from f(5) have "writer_ops (ops f) = [Write []]" unfolding Ro by simp
    then have a: "Code (answer w (f, None)) = 200"
      by (simp add: answer_writer_ops NewRecorder_def)
    have l: "LogEndRequest (config ups) \<longrightarrow> EvLogEndRequest (Method r) (URL r) 200 \<in> set (hooks f)"
      unfolding f(4) by (simp add: logEndRequest_def)
    from True f(1,2,3,5) a l show ?thesis by auto
  next
    case False
    show ?thesis
    proof (cases "100 \<le> c \<and> c \<le> 999")
      case True
      then have v: "100 \<le> c" "c \<le> 999" by simp_all
      from ServeHTTP_error_status[OF Rc False v, where w = w] obtain f where
        f: "ServeHTTP lb ups w r = Some (f, None)" "statusCode f = c"
           "resp f = resp (recovered lb ups r (frame0 ups))"
           "hooks f = hooks (recovered lb ups r (frame0 ups)) @ errorResponse_call (config ups) c
                       @ logEndRequest (config ups) (Method r) (URL r) c"
           "ops f = ops (recovered lb ups r (frame0 ups)) @ [HttpError (errorResponse (config ups) c) c]"
        by blast
      from f(5) have "writer_ops (ops f) = [HttpError (errorResponse (config ups) c) c]"
        unfolding Ro by simp
      from answer_error[OF this v, of w None] have a: "Code (answer w (f, None)) = c" by simp
      have l: "LogEndRequest (config ups) \<longrightarrow> EvLogEndRequest (Method r) (URL r) c \<in> set (hooks f)"
        unfolding f(4) by (simp add: logEndRequest_def)
      from False True f(1,2,3,5) R(2) a l show ?thesis by auto
    next
      case out: False
      then have v: "c < 100 \<or> 999 < c" by auto
      from ServeHTTP_error_panics[OF Rc v, where w = w] obtain f where
        f: "ServeHTTP lb ups w r = Some (f, Some (''invalid WriteHeader code '' @ Itoa c))"
           "statusCode f = c"
           "resp f = resp (recovered lb ups r (frame0 ups))"
           "hooks f = hooks (recovered lb ups r (frame0 ups)) @ errorResponse_call (config ups) c"
           "ops f = ops (recovered lb ups r (frame0 ups)) @ [HttpError (errorResponse (config ups) c) c]"
        by blast
      from f(5) have "writer_ops (ops f) = [HttpError (errorResponse (config ups) c) c]"
        unfolding Ro by simp
      with v have a: "Bytes (answer w (f, Some (''invalid WriteHeader code '' @ Itoa c))) = []"
        by (auto simp: answer_writer_ops NewRecorder_def checkWriteHeaderCode_def)
      from False out f(1,2,3,4,5) R(2) a show ?thesis by auto
    qed
  qed
  then obtain f pan where f: "ServeHTTP lb ups w r = Some (f, pan)" "statusCode f = c" "resp f = []"
     "ops f = ops (recovered lb ups r (frame0 ups))
               @ [if c = 200 then Write [] else HttpError (errorResponse (config ups) c) c]"
     "100 \<le> c \<and> c \<le> 999 \<longrightarrow>
          pan = None \<and> Code (answer w (f, pan)) = c
          \<and> (LogEndRequest (config ups) \<longrightarrow> EvLogEndRequest (Method r) (URL r) c \<in> set (hooks f))"
     "c < 100 \<or> 999 < c \<longrightarrow>
          pan = Some (''invalid WriteHeader code '' @ Itoa c)
          \<and> Bytes (answer w (f, pan)) = []
          \<and> hooks f = hooks (recovered lb ups r (frame0 ups)) @ errorResponse_call (config ups) c"
    by blast
  have o: "ops f = [ReadFrom, ParseMediaType (Header_Get (Header r) ''Content-Type''),
               PoolGet (fst (Pool_Get (requestObjectPool ups))),
               if json then JsonUnmarshal req else ProtoUnmarshal req,
               CallHandler (call_args ups r arg), MessageReset arg, PoolPut (Reset lb arg),
               if statusCode f = 200 then Write []
               else HttpError (errorResponse (config ups) (statusCode f)) (statusCode f)]"
    using f(4) unfolding Ro f(2) by simp
  have ne: "MarshalToString x \<notin> set (ops f) \<and> ProtoMarshal x \<notin> set (ops f)" for x
    unfolding o by simp
  have sc: "statusCode f = (case e of StatusCoderError s code \<Rightarrow> code | PlainError s \<Rightarrow> 500)"
    using f(2) by (simp add: c_def)
  have g1: "100 \<le> statusCode f \<and> statusCode f \<le> 999 \<longrightarrow>
          pan = None \<and> Code (answer w (f, pan)) = statusCode f
          \<and> (LogEndRequest (config ups) \<longrightarrow>
                EvLogEndRequest (Method r) (URL r) (statusCode f) \<in> set (hooks f))"
    using f(5) unfolding f(2) .
  have g2: "statusCode f < 100 \<or> 999 < statusCode f \<longrightarrow>
          pan = Some (''invalid WriteHeader code '' @ Itoa (statusCode f))
          \<and> Bytes (answer w (f, pan)) = []
          \<and> hooks f = logStartRequest (config ups) (Method r) (URL r)
                      @ (if json then logRequestJSON (config ups) req else logRequestBytes (config ups) req)
                      @ logRequestMessage (config ups) arg
                      @ errorResponse_call (config ups) (statusCode f)"
    using f(6) unfolding f(2) Rh append_assoc .
  from f(1) sc f(3) o ne g1 g2 show ?thesis by blast
qed

text \<open>
  The handler of the test returns the error with status 418 on the name \<open>Teapot\<close>:
  the answer is \<open>http.Error\<close> with 418 and the empty text, and the response has the
  status 418.
\<close>

theorem handler_error_sets_status_without_encoding_witness:
  "Call (handler error_handler) [MsgVal (HelloRequest ''Teapot'')]
     = Return2 NilHello (Some (StatusCoderError ''418'' 418))
   \<and> IsNil_panic hello_lib (handler error_handler) = None
   \<and> (\<exists>f. ServeHTTP hello_lib error_handler recorder teapot_request = Some (f, None)
         \<and> statusCode f = 418 \<and> resp f = [] \<and> writer_ops (ops f) = [HttpError [] 418]
         \<and> Code (answer recorder (f, None)) = 418)"
proof -
  have c: "Call (handler error_handler) [MsgVal (HelloRequest ''Teapot'')]
     = Return2 NilHello (Some (StatusCoderError ''418'' 418))"
    by (simp add: fixture_defs)
  from handler_error_sets_status_without_encoding[OF teapot_request_path, of recorder] obtain f pan where
    f: "ServeHTTP hello_lib error_handler recorder teapot_request = Some (f, pan)"
       "statusCode f = 418" "resp f = []"
       "ops f = [ReadFrom, ParseMediaType (Header_Get (Header teapot_request) ''Content-Type''),
               PoolGet (fst (Pool_Get (requestObjectPool error_handler))),
               if True then JsonUnmarshal ''{\"name\":\"Teapot\"}'' else ProtoUnmarshal ''{\"name\":\"Teapot\"}'',
               CallHandler (call_args error_handler teapot_request (HelloRequest ''Teapot'')),
               MessageReset (HelloRequest ''Teapot''), PoolPut (Reset hello_lib (HelloRequest ''Teapot'')),
               if statusCode f = 200 then Write []
               else HttpError (errorResponse (config error_handler) (statusCode f)) (statusCode f)]"
       "100 \<le> statusCode f \<and> statusCode f \<le> 999 \<longrightarrow>
          pan = None \<and> Code (answer recorder (f, pan)) = statusCode f"
    by auto
  have "100 \<le> (418 :: int) \<and> (418 :: int) \<le> 999" by simp
  with f(5)[unfolded f(2)] have "pan = None \<and> Code (answer recorder (f, pan)) = 418" by blast
  then have p0: "pan = None" and p: "Code (answer recorder (f, None)) = 418" by auto
  from f(4) have "writer_ops (ops f) = [HttpError [] 418]"
    unfolding f(2) by (simp add: errorResponse_def fixture_defs)
  with c teapot_request_path(6) f(1)[unfolded p0] f(2,3) p show ?thesis by blast
qed

text \<open>
  Claim C3 as it is worded (the response status is the value of \<open>StatusCode()\<close>,
  whatever it is) fails on the handler of the test when its error has the status
  1000: \<open>http.Error\<close> is called with 1000, \<open>WriteHeader\<close> panics, and \<open>ServeHTTP\<close> is
  left by this panic with nothing written; the last hook called is the one of the
  request message.
\<close>

theorem status_code_1000_is_not_answered:
  "Call (handler error_handler) [MsgVal (HelloRequest ''1000'')]
     = Return2 NilHello (Some (StatusCoderError ''1000'' 1000))
   \<and> map_option snd (ServeHTTP hello_lib error_handler recorder thousand_request)
       = Some (Some ''invalid WriteHeader code 1000'')
   \<and> map_option (writer_ops \<circ> ops \<circ> fst) (ServeHTTP hello_lib error_handler recorder thousand_request)
       = Some [HttpError [] 1000]
   \<and> map_option (Bytes \<circ> answer recorder) (ServeHTTP hello_lib error_handler recorder thousand_request)
       = Some []
   \<and> map_option (hooks \<circ> fst) (ServeHTTP hello_lib error_handler recorder thousand_request)
       = Some [EvLogStartRequest ''POST'' ''/hello'', EvLogRequestJSON ''{\"name\":\"1000\"}'',
               EvLogRequestMessage (HelloRequest ''1000'')]"
proof -
  have c: "Call (handler error_handler) [MsgVal (HelloRequest ''1000'')]
     = Return2 NilHello (Some (StatusCoderError ''1000'' 1000))"
    by (simp add: fixture_defs)
  note R = recovered_handler_error[OF thousand_request_path]
  have Rc: "statusCode (recovered hello_lib error_handler thousand_request (frame0 error_handler)) = 1000"
    using R(1) by simp
  have v: "(1000 :: int) < 100 \<or> 999 < (1000 :: int)" by simp
  from ServeHTTP_error_panics[OF Rc v, where w = recorder] obtain f where
    f: "ServeHTTP hello_lib error_handler recorder thousand_request
          = Some (f, Some (''invalid WriteHeader code '' @ Itoa 1000))"
       "hooks f = hooks (recovered hello_lib error_handler thousand_request (frame0 error_handler))
                   @ errorResponse_call (config error_handler) 1000"
       "ops f = ops (recovered hello_lib error_handler thousand_request (frame0 error_handler))
                 @ [HttpError (errorResponse (config error_handler) 1000) 1000]"
    by blast
  from f(3) have wo: "writer_ops (ops f) = [HttpError [] 1000]"
    unfolding R(5) by (simp add: before_call_ops_def errorResponse_def fixture_defs)
  then have b: "Bytes (answer recorder (f, Some (''invalid WriteHeader code '' @ Itoa 1000))) = []"
    by (simp add: answer_writer_ops NewRecorder_def checkWriteHeaderCode_def)
  from f(2) have h: "hooks f = [EvLogStartRequest ''POST'' ''/hello'', EvLogRequestJSON ''{\"name\":\"1000\"}'',
               EvLogRequestMessage (HelloRequest ''1000'')]"
    unfolding R(4)
    by (simp add: before_call_hooks_def logStartRequest_def logRequestJSON_def logRequestMessage_def
          errorResponse_call_def fixture_defs)
  from c f(1) wo b h show ?thesis by (simp add: Itoa_1000)
qed

text \<open>
  Claim C4.  When a request reaches the handler and the call panics with a value,
  \<open>ServeHTTP\<close> returns all the same, with status 500.  \<open>LogPanic\<close>, when it is set,
  is called with the value, after the hooks of the request and before the one of its
  end.  The message is reset and put back, and the handler is left as it was but for
  the pool, which holds that message.  When \<open>Reset\<close> leaves the message as the pool
  first handed it out, every later request, with any writer, is answered exactly as
  the handler would have answered it before the panic: same status, same hooks, same
  operations, and the same way out of \<open>ServeHTTP\<close>.
\<close>

theorem handler_panic_is_contained:
  assumes "Method r = MethodPost" and "Body r = BodyData req"
    and "negotiate lb (config ups) (Header_Get (Header r) ''Content-Type'') = Accept json"
    and "unmarshal lb json req (fst (Pool_Get (requestObjectPool ups))) = (arg, None)"
    and "Call (handler ups) (call_args ups r arg) = Panics v"
  shows "\<exists>f. ServeHTTP lb ups w r = Some (f, None) \<and> statusCode f = 500
     \<and> hooks f = logStartRequest (config ups) (Method r) (URL r)
                 @ (if json then logRequestJSON (config ups) req else logRequestBytes (config ups) req)
                 @ logRequestMessage (config ups) arg
                 @ logPanic (config ups) v
                 @ errorResponse_call (config ups) 500
                 @ logEndRequest (config ups) (Method r) (URL r) 500
     \<and> (LogPanic (config ups) \<longrightarrow> EvLogPanic v \<in> set (hooks f))
     \<and> ops f = [ReadFrom, ParseMediaType (Header_Get (Header r) ''Content-Type''),
               PoolGet (fst (Pool_Get (requestObjectPool ups))),
               if json then JsonUnmarshal req else ProtoUnmarshal req,
               CallHandler (call_args ups r arg), MessageReset arg, PoolPut (Reset lb arg),
               HttpError (errorResponse (config ups) 500) 500]
     \<and> after ups f = ups\<lparr>requestObjectPool :=
                            Pool_Put (snd (Pool_Get (requestObjectPool ups))) (Reset lb arg)\<rparr>
     \<and> (Reset lb arg = fst (Pool_Get (requestObjectPool ups)) \<longrightarrow>
          (\<forall>w' r'. map_option outcome_view (ServeHTTP lb (after ups f) w' r')
                   = map_option outcome_view (ServeHTTP lb ups w' r')))"
proof -
  note R = recovered_panics[OF assms]
  from ServeHTTP_error_status[OF R(1), where w = w] obtain f where
    f: "ServeHTTP lb ups w r = Some (f, None)" "statusCode f = 500"
       "pool f = pool (recovered lb ups r (frame0 ups))"
       "hooks f = hooks (recovered lb ups r (frame0 ups)) @ errorResponse_call (config ups) 500
                   @ logEndRequest (config ups) (Method r) (URL r) 500"
       "ops f = ops (recovered lb ups r (frame0 ups)) @ [HttpError (errorResponse (config ups) 500) 500]"
    by auto
  have h: "hooks f = logStartRequest (config ups) (Method r) (URL r)
                 @ (if json then logRequestJSON (config ups) req else logRequestBytes (config ups) req)
                 @ logRequestMessage (config ups) arg
                 @ logPanic (config ups) v
                 @ errorResponse_call (config ups) 500
                 @ logEndRequest (config ups) (Method r) (URL r) 500"
    using f(4) R(4) by (simp add: before_call_hooks_def)
  have lp: "LogPanic (config ups) \<longrightarrow> EvLogPanic v \<in> set (hooks f)"
    unfolding h by (simp add: logPanic_def)
  have o: "ops f = [ReadFrom, ParseMediaType (Header_Get (Header r) ''Content-Type''),
               PoolGet (fst (Pool_Get (requestObjectPool ups))),
               if json then JsonUnmarshal req else ProtoUnmarshal req,
               CallHandler (call_args ups r arg), MessageReset arg, PoolPut (Reset lb arg),
               HttpError (errorResponse (config ups) 500) 500]"
    using f(5) R(5) by (simp add: before_call_ops_def)
  have a: "after ups f = ups\<lparr>requestObjectPool :=
                            Pool_Put (snd (Pool_Get (requestObjectPool ups))) (Reset lb arg)\<rparr>"
    using f(3) R(3) by (simp add: after_def)
  have n: "map_option outcome_view (ServeHTTP lb (after ups f) w' r')
         = map_option outcome_view (ServeHTTP lb ups w' r')"
    if eq: "Reset lb arg = fst (Pool_Get (requestObjectPool ups))" for w' r'
  proof -
    have "fst (Pool_Get (Pool_Put (snd (Pool_Get (requestObjectPool ups))) (Reset lb arg)))
          = fst (Pool_Get (requestObjectPool ups))"
      using eq by simp
    from ServeHTTP_view[OF this, where lb = lb and ups = ups and w = w' and r = r'] show ?thesis
      by (simp add: a)
  qed
  from f(1,2) h lp o a n show ?thesis by blast
qed

text \<open>
  The request of the test with the name \<open>panic\<close>: status 500, the panic is logged,
  and the JSON request that follows is answered with status 200.
\<close>

theorem handler_panic_is_contained_witness:
  "Method panic_request = MethodPost
   \<and> Call (handler hello_handler) [MsgVal (HelloRequest ''panic'')] = Panics ''panic''
   \<and> (\<exists>f. ServeHTTP hello_lib hello_handler recorder panic_request = Some (f, None)
         \<and> statusCode f = 500 \<and> EvLogPanic ''panic'' \<in> set (hooks f)
         \<and> map_option (statusCode \<circ> fst) (ServeHTTP hello_lib (after hello_handler f) recorder json_request)
             = Some 200)"
proof -
  have h6: "Call (handler hello_handler) [MsgVal (HelloRequest ''panic'')] = Panics ''panic''"
    by (simp add: fixture_defs)
  have h7: "LogPanic (config hello_handler)" by (simp add: fixture_defs)
  have h8: "Reset hello_lib (HelloRequest ''panic'') = fst (Pool_Get (requestObjectPool hello_handler))"
    by (simp add: fixture_defs)
  from handler_panic_is_contained[OF panic_request_path, of recorder] obtain f where
    f: "ServeHTTP hello_lib hello_handler recorder panic_request = Some (f, None)" "statusCode f = 500"
       "LogPanic (config hello_handler) \<longrightarrow> EvLogPanic ''panic'' \<in> set (hooks f)"
       "Reset hello_lib (HelloRequest ''panic'') = fst (Pool_Get (requestObjectPool hello_handler)) \<longrightarrow>
          (\<forall>w' r'. map_option outcome_view (ServeHTTP hello_lib (after hello_handler f) w' r')
                   = map_option outcome_view (ServeHTTP hello_lib hello_handler w' r'))"
    by blast
  from f(4) h8 have "map_option outcome_view (ServeHTTP hello_lib (after hello_handler f) recorder json_request)
      = map_option outcome_view (ServeHTTP hello_lib hello_handler recorder json_request)" by blast
  then have "map_option (fst \<circ> fst \<circ> outcome_view) (ServeHTTP hello_lib (after hello_handler f) recorder json_request)
      = map_option (fst \<circ> fst \<circ> outcome_view) (ServeHTTP hello_lib hello_handler recorder json_request)"
    by (simp add: option.map_comp[symmetric])
  moreover have "fst \<circ> fst \<circ> outcome_view = (statusCode \<circ> fst :: (int, hello) frame \<times> string option \<Rightarrow> int)"
    by (rule ext) (simp add: outcome_view_def view_def)
  ultimately have "map_option (statusCode \<circ> fst) (ServeHTTP hello_lib (after hello_handler f) recorder json_request)
             = map_option (statusCode \<circ> fst) (ServeHTTP hello_lib hello_handler recorder json_request)"
    by simp
  also have "\<dots> = Some 200" using json_request_served by auto
  finally have n: "map_option (statusCode \<circ> fst) (ServeHTTP hello_lib (after hello_handler f) recorder json_request) = Some 200" .
  from f(1,2) f(3) h7 panic_request_path(1) h6 n show ?thesis by blast
qed

text \<open>
  Claim C5, as it holds.  The media type is looked at only after the body has been
  read, so the claim is about a POST request whose body could be read.  For such a
  request: a header value that does not parse is rejected, and so is an absent
  header, whose value is the empty string, when the parser fails on it as Go's does;
  a media type other than the three supported ones is rejected; \<open>application/json\<close>
  is rejected when \<open>JSONMarshaler\<close> is nil and selects JSON when it is not;
  \<open>application/octet-stream\<close> and \<open>application/x-protobuf\<close> select the binary
  codec.  A rejected request is answered with status 415, after the read and the
  parse and nothing else.  An accepted request is decoded with the selected codec,
  and the other codec neither decodes nor encodes anything for it; the only header
  ever set is the \<open>Content-Type\<close> of the selected codec.
\<close>

theorem negotiation_of_a_read_request:
  assumes "Method r = MethodPost" and "Body r = BodyData req"
  shows
    "(\<forall>e. mime_ParseMediaType lb (Header_Get (Header r) ''Content-Type'') = Inl e \<longrightarrow>
        negotiate lb (config ups) (Header_Get (Header r) ''Content-Type'') = Reject (Some e))
   \<and> (\<forall>e. map_of (Header r) ''Content-Type'' = None \<and> mime_ParseMediaType lb [] = Inl e \<longrightarrow>
        negotiate lb (config ups) (Header_Get (Header r) ''Content-Type'') = Reject (Some e))
   \<and> (\<forall>t. mime_ParseMediaType lb (Header_Get (Header r) ''Content-Type'') = Inr t
          \<and> t \<noteq> ''application/json'' \<and> t \<noteq> ''application/octet-stream''
          \<and> t \<noteq> ''application/x-protobuf'' \<longrightarrow>
        negotiate lb (config ups) (Header_Get (Header r) ''Content-Type'') = Reject None)
   \<and> (mime_ParseMediaType lb (Header_Get (Header r) ''Content-Type'') = Inr ''application/json''
        \<and> JSONMarshaler (config ups) = None \<longrightarrow>
        negotiate lb (config ups) (Header_Get (Header r) ''Content-Type'') = Reject None)
   \<and> (mime_ParseMediaType lb (Header_Get (Header r) ''Content-Type'') = Inr ''application/json''
        \<and> JSONMarshaler (config ups) \<noteq> None \<longrightarrow>
        negotiate lb (config ups) (Header_Get (Header r) ''Content-Type'') = Accept True)
   \<and> (mime_ParseMediaType lb (Header_Get (Header r) ''Content-Type'') = Inr ''application/octet-stream''
        \<or> mime_ParseMediaType lb (Header_Get (Header r) ''Content-Type'') = Inr ''application/x-protobuf'' \<longrightarrow>
        negotiate lb (config ups) (Header_Get (Header r) ''Content-Type'') = Accept False)
   \<and> (\<forall>e. negotiate lb (config ups) (Header_Get (Header r) ''Content-Type'') = Reject e \<longrightarrow>
        (\<exists>f. ServeHTTP lb ups w r = Some (f, None) \<and> statusCode f = 415
           \<and> ops f = [ReadFrom, ParseMediaType (Header_Get (Header r) ''Content-Type''),
                     HttpError (errorResponse (config ups) 415) 415]))
   \<and> (\<forall>json f pan. negotiate lb (config ups) (Header_Get (Header r) ''Content-Type'') = Accept json
          \<and> ServeHTTP lb ups w r = Some (f, pan) \<longrightarrow>
        (if json then JsonUnmarshal req else ProtoUnmarshal req) \<in> set (ops f)
        \<and> (\<forall>x. (if json then ProtoUnmarshal x else JsonUnmarshal x) \<notin> set (ops f))
        \<and> (\<forall>m. (if json then ProtoMarshal m else MarshalToString m) \<notin> set (ops f))
        \<and> (\<forall>k v. HeaderSet k v \<in> set (ops f) \<longrightarrow>
              k = ''Content-Type''
              \<and> v = (if json then ''application/json'' else ''application/octet-stream'')))"
proof (intro conjI allI impI)
  fix e assume "mime_ParseMediaType lb (Header_Get (Header r) ''Content-Type'') = Inl e"
  then show "negotiate lb (config ups) (Header_Get (Header r) ''Content-Type'') = Reject (Some e)"
    by (simp add: negotiate_def)
next
  fix e assume "map_of (Header r) ''Content-Type'' = None \<and> mime_ParseMediaType lb [] = Inl e"
  then show "negotiate lb (config ups) (Header_Get (Header r) ''Content-Type'') = Reject (Some e)"
    by (simp add: negotiate_def Header_Get_def)
next
  fix t
  assume "mime_ParseMediaType lb (Header_Get (Header r) ''Content-Type'') = Inr t
          \<and> t \<noteq> ''application/json'' \<and> t \<noteq> ''application/octet-stream''
          \<and> t \<noteq> ''application/x-protobuf''"
  then show "negotiate lb (config ups) (Header_Get (Header r) ''Content-Type'') = Reject None"
    by (simp add: negotiate_def)
next
  assume "mime_ParseMediaType lb (Header_Get (Header r) ''Content-Type'') = Inr ''application/json''
        \<and> JSONMarshaler (config ups) = None"
  then show "negotiate lb (config ups) (Header_Get (Header r) ''Content-Type'') = Reject None"
    by (simp add: negotiate_def)
next
  assume "mime_ParseMediaType lb (Header_Get (Header r) ''Content-Type'') = Inr ''application/json''
        \<and> JSONMarshaler (config ups) \<noteq> None"
  then show "negotiate lb (config ups) (Header_Get (Header r) ''Content-Type'') = Accept True"
    by (simp add: negotiate_def)
next
  assume "mime_ParseMediaType lb (Header_Get (Header r) ''Content-Type'') = Inr ''application/octet-stream''
        \<or> mime_ParseMediaType lb (Header_Get (Header r) ''Content-Type'') = Inr ''application/x-protobuf''"
  then show "negotiate lb (config ups) (Header_Get (Header r) ''Content-Type'') = Accept False"
    by (auto simp: negotiate_def)
next
  fix e assume "negotiate lb (config ups) (Header_Get (Header r) ''Content-Type'') = Reject e"
  from ServeHTTP_rejected[OF assms this]
  show "\<exists>f. ServeHTTP lb ups w r = Some (f, None) \<and> statusCode f = 415
           \<and> ops f = [ReadFrom, ParseMediaType (Header_Get (Header r) ''Content-Type''),
                     HttpError (errorResponse (config ups) 415) 415]" .
next
  fix json f pan
  assume "negotiate lb (config ups) (Header_Get (Header r) ''Content-Type'') = Accept json
          \<and> ServeHTTP lb ups w r = Some (f, pan)"
  then have n: "negotiate lb (config ups) (Header_Get (Header r) ''Content-Type'') = Accept json"
    and s: "ServeHTTP lb ups w r = Some (f, pan)" by simp_all
  from ServeHTTP_late[OF assms n s] obtain xs where
    xs: "ops f = before_call_ops ups r json req @ xs" "list_all (late_op json) xs" by blast
  note L = late_op_facts[OF xs(2)]
  have o: "set (ops f) = {ReadFrom, ParseMediaType (Header_Get (Header r) ''Content-Type''),
        PoolGet (fst (Pool_Get (requestObjectPool ups))),
        if json then JsonUnmarshal req else ProtoUnmarshal req} \<union> set xs"
    unfolding xs(1) before_call_ops_def by simp
  show "(if json then JsonUnmarshal req else ProtoUnmarshal req) \<in> set (ops f)"
    unfolding o by simp
  show "(if json then ProtoUnmarshal x else JsonUnmarshal x) \<notin> set (ops f)" for x
    unfolding o using L(4)[of x] L(5)[of x] by (cases json) simp_all
  show "(if json then ProtoMarshal m else MarshalToString m) \<notin> set (ops f)" for m
    unfolding o using L(6)[of m] by (cases json) simp_all
  show "k = ''Content-Type''" if "HeaderSet k v \<in> set (ops f)" for k v
    using that L(7)[of k v] unfolding o by (cases json) simp_all
  show "v = (if json then ''application/json'' else ''application/octet-stream'')"
    if "HeaderSet k v \<in> set (ops f)" for k v
    using that L(7)[of k v] unfolding o by (cases json) simp_all
qed

text \<open>
  Claim C5 as it is worded (every POST request with an unsupported media type yields
  415) fails on a POST request with the media type \<open>text/plain\<close> whose body cannot
  be read: the status is 500.
\<close>

theorem unsupported_type_with_unreadable_body_is_500:
  "Method broken_body_request = MethodPost
   \<and> negotiate hello_lib (config hello_handler)
        (Header_Get (Header broken_body_request) ''Content-Type'') = Reject None
   \<and> map_option (statusCode \<circ> fst) (ServeHTTP hello_lib hello_handler recorder broken_body_request) = Some 500"
proof -
  have h1: "Method broken_body_request = MethodPost" by (simp add: fixture_defs)
  have h2: "Body broken_body_request = BodyError ''unexpected EOF''" by (simp add: fixture_defs)
  have h3: "negotiate hello_lib (config hello_handler)
        (Header_Get (Header broken_body_request) ''Content-Type'') = Reject None"
    by (simp add: fixture_defs)
  from ServeHTTP_body_error[OF h1 h2, of hello_lib hello_handler recorder]
  have "map_option (statusCode \<circ> fst) (ServeHTTP hello_lib hello_handler recorder broken_body_request) = Some 500"
    by auto
  with h1 h3 show ?thesis by blast
qed

text \<open>
  The two requests of the test: \<open>text/plain\<close> is answered with 415, and the JSON
  request is decoded with the JSON codec.
\<close>

theorem negotiation_of_a_read_request_witness:
  "Method text_plain_request = MethodPost
   \<and> Body text_plain_request = BodyData ''bad request''
   \<and> mime_ParseMediaType hello_lib (Header_Get (Header text_plain_request) ''Content-Type'') = Inr ''text/plain''
   \<and> (\<exists>f. ServeHTTP hello_lib hello_handler recorder text_plain_request = Some (f, None) \<and> statusCode f = 415)
   \<and> Method json_request = MethodPost
   \<and> mime_ParseMediaType hello_lib (Header_Get (Header json_request) ''Content-Type'') = Inr ''application/json''
   \<and> (\<exists>f. ServeHTTP hello_lib hello_handler recorder json_request = Some (f, None)
         \<and> JsonUnmarshal ''{\"name\":\"World\"}'' \<in> set (ops f))"
proof -
  have t1: "Method text_plain_request = MethodPost" by (simp add: fixture_defs)
  have t2: "Body text_plain_request = BodyData ''bad request''" by (simp add: fixture_defs)
  have t3: "mime_ParseMediaType hello_lib (Header_Get (Header text_plain_request) ''Content-Type'')
              = Inr ''text/plain''" by (simp add: fixture_defs)
  note T = negotiation_of_a_read_request[OF t1 t2, of hello_lib hello_handler recorder]
  from T t3 have "negotiate hello_lib (config hello_handler)
      (Header_Get (Header text_plain_request) ''Content-Type'') = Reject None"
    by simp
  with T have a: "\<exists>f. ServeHTTP hello_lib hello_handler recorder text_plain_request = Some (f, None) \<and> statusCode f = 415"
    by blast
  have j3: "mime_ParseMediaType hello_lib (Header_Get (Header json_request) ''Content-Type'')
              = Inr ''application/json''" by (simp add: fixture_defs)
  have j4: "JSONMarshaler (config hello_handler) \<noteq> None" by (simp add: fixture_defs)
  note J = negotiation_of_a_read_request[OF json_request_path(1,2), of hello_lib hello_handler recorder]
  from J j3 j4 have n: "negotiate hello_lib (config hello_handler)
      (Header_Get (Header json_request) ''Content-Type'') = Accept True"
    by blast
  from json_request_served obtain f where f: "ServeHTTP hello_lib hello_handler recorder json_request = Some (f, None)"
    by blast
  from J n f have "(if True then JsonUnmarshal ''{\"name\":\"World\"}'' else ProtoUnmarshal ''{\"name\":\"World\"}'')
      \<in> set (ops f)"
    by blast
  with f have b: "\<exists>f. ServeHTTP hello_lib hello_handler recorder json_request = Some (f, None)
         \<and> JsonUnmarshal ''{\"name\":\"World\"}'' \<in> set (ops f)"
    by auto
  from t1 t2 t3 a json_request_path(1) j3 b show ?thesis by blast
qed

text \<open>
  Claim C6, as it holds.  \<open>ServeHTTP\<close> reads the whole body of a POST request first
  (line 291) and looks at the media type afterwards (line 299).  A body that cannot
  be read is answered with status 500, whatever the media type, and the media type
  is not parsed.  A request whose body was read and whose media type is rejected is
  answered with status 415 after the read, with no message taken from the pool and
  nothing decoded.  For an accepted request the operations start with the read, the
  parse, the \<open>Get\<close> and the decoding, in this order, and none of the four kinds comes
  again.
\<close>

theorem body_read_precedes_negotiation:
  assumes "Method r = MethodPost"
  shows
    "(\<forall>e. Body r = BodyError e \<longrightarrow>
        (\<exists>f. ServeHTTP lb ups w r = Some (f, None) \<and> statusCode f = 500
           \<and> ops f = [ReadFrom, HttpError (errorResponse (config ups) 500) 500]))
   \<and> (\<forall>req e. Body r = BodyData req
          \<and> negotiate lb (config ups) (Header_Get (Header r) ''Content-Type'') = Reject e \<longrightarrow>
        (\<exists>f. ServeHTTP lb ups w r = Some (f, None) \<and> statusCode f = 415
           \<and> ops f = [ReadFrom, ParseMediaType (Header_Get (Header r) ''Content-Type''),
                     HttpError (errorResponse (config ups) 415) 415]))
   \<and> (\<forall>req json f pan. Body r = BodyData req
          \<and> negotiate lb (config ups) (Header_Get (Header r) ''Content-Type'') = Accept json
          \<and> ServeHTTP lb ups w r = Some (f, pan) \<longrightarrow>
        (\<exists>rest. ops f = ReadFrom # ParseMediaType (Header_Get (Header r) ''Content-Type'')
                        # PoolGet (fst (Pool_Get (requestObjectPool ups)))
                        # (if json then JsonUnmarshal req else ProtoUnmarshal req) # rest
            \<and> ReadFrom \<notin> set rest
            \<and> (\<forall>c. ParseMediaType c \<notin> set rest)
            \<and> (\<forall>x. JsonUnmarshal x \<notin> set rest \<and> ProtoUnmarshal x \<notin> set rest)))"
proof (intro conjI allI impI)
  fix e assume "Body r = BodyError e"
  from ServeHTTP_body_error[OF assms this]
  show "\<exists>f. ServeHTTP lb ups w r = Some (f, None) \<and> statusCode f = 500
           \<and> ops f = [ReadFrom, HttpError (errorResponse (config ups) 500) 500]" .
next
  fix req e
  assume "Body r = BodyData req
          \<and> negotiate lb (config ups) (Header_Get (Header r) ''Content-Type'') = Reject e"
  then show "\<exists>f. ServeHTTP lb ups w r = Some (f, None) \<and> statusCode f = 415
           \<and> ops f = [ReadFrom, ParseMediaType (Header_Get (Header r) ''Content-Type''),
                     HttpError (errorResponse (config ups) 415) 415]"
    using ServeHTTP_rejected[OF assms] by blast
next
  fix req json f pan
  assume a: "Body r = BodyData req
          \<and> negotiate lb (config ups) (Header_Get (Header r) ''Content-Type'') = Accept json
          \<and> ServeHTTP lb ups w r = Some (f, pan)"
  then have "\<exists>xs. ops f = before_call_ops ups r json req @ xs \<and> list_all (late_op json) xs"
    using ServeHTTP_late[OF assms] by blast
  then obtain xs where
    xs: "ops f = before_call_ops ups r json req @ xs" "list_all (late_op json) xs" by blast
  note L = late_op_facts[OF xs(2)]
  have "ops f = ReadFrom # ParseMediaType (Header_Get (Header r) ''Content-Type'')
                        # PoolGet (fst (Pool_Get (requestObjectPool ups)))
                        # (if json then JsonUnmarshal req else ProtoUnmarshal req) # xs"
    using xs(1) by (simp add: before_call_ops_def)
  with L(1,2,4,5) show "\<exists>rest. ops f = ReadFrom # ParseMediaType (Header_Get (Header r) ''Content-Type'')
                        # PoolGet (fst (Pool_Get (requestObjectPool ups)))
                        # (if json then JsonUnmarshal req else ProtoUnmarshal req) # rest
            \<and> ReadFrom \<notin> set rest
            \<and> (\<forall>c. ParseMediaType c \<notin> set rest)
            \<and> (\<forall>x. JsonUnmarshal x \<notin> set rest \<and> ProtoUnmarshal x \<notin> set rest)"
    by blast
qed

text \<open>
  Claim C6 as it is worded (the media type is negotiated before the body is read, so
  that a 415 comes with no body read, and a failed read only happens to a request
  with an accepted media type) fails on the request of the test with the media type
  \<open>text/plain\<close>, whose body is read before it is answered with 415, and on a request
  with the same media type whose body cannot be read, which is answered with 500.
\<close>

theorem body_is_read_before_media_type_is_rejected:
  "map_option (ops \<circ> fst) (ServeHTTP hello_lib hello_handler recorder text_plain_request)
     = Some [ReadFrom, ParseMediaType ''text/plain'', HttpError [] 415]
   \<and> negotiate hello_lib (config hello_handler)
        (Header_Get (Header broken_body_request) ''Content-Type'') = Reject None
   \<and> map_option (ops \<circ> fst) (ServeHTTP hello_lib hello_handler recorder broken_body_request)
     = Some [ReadFrom, HttpError [] 500]"
proof -
  have t1: "Method text_plain_request = MethodPost" by (simp add: fixture_defs)
  have t2: "Body text_plain_request = BodyData ''bad request''" by (simp add: fixture_defs)
  have t3: "negotiate hello_lib (config hello_handler)
              (Header_Get (Header text_plain_request) ''Content-Type'') = Reject None"
    by (simp add: fixture_defs)
  have h1: "Method broken_body_request = MethodPost" by (simp add: fixture_defs)
  have h2: "Body broken_body_request = BodyError ''unexpected EOF''" by (simp add: fixture_defs)
  have h3: "negotiate hello_lib (config hello_handler)
        (Header_Get (Header broken_body_request) ''Content-Type'') = Reject None"
    by (simp add: fixture_defs)
  from ServeHTTP_rejected[OF t1 t2 t3, of recorder]
  have a: "map_option (ops \<circ> fst) (ServeHTTP hello_lib hello_handler recorder text_plain_request)
     = Some [ReadFrom, ParseMediaType ''text/plain'', HttpError [] 415]"
    by (auto simp: errorResponse_def fixture_defs)
  from ServeHTTP_body_error[OF h1 h2, of hello_lib hello_handler recorder]
  have b: "map_option (ops \<circ> fst) (ServeHTTP hello_lib hello_handler recorder broken_body_request)
     = Some [ReadFrom, HttpError [] 500]"
    by (auto simp: errorResponse_def fixture_defs)
  from a h3 b show ?thesis by blast
qed

text \<open>
  A POST request with an unreadable body: status 500, one read and no parse.
\<close>

theorem body_read_precedes_negotiation_witness:
  "Method broken_body_request = MethodPost
   \<and> Body broken_body_request = BodyError ''unexpected EOF''
   \<and> (\<exists>f. ServeHTTP hello_lib hello_handler recorder broken_body_request = Some (f, None)
         \<and> statusCode f = 500 \<and> ops f = [ReadFrom, HttpError [] 500])"
proof -
  have h1: "Method broken_body_request = MethodPost" by (simp add: fixture_defs)
  have h2: "Body broken_body_request = BodyError ''unexpected EOF''" by (simp add: fixture_defs)
  have e: "errorResponse (config hello_handler) 500 = []"
    by (simp add: errorResponse_def fixture_defs)
  from body_read_precedes_negotiation[OF h1, of hello_lib hello_handler recorder] h2
  have "\<exists>f. ServeHTTP hello_lib hello_handler recorder broken_body_request = Some (f, None)
         \<and> statusCode f = 500
         \<and> ops f = [ReadFrom, HttpError (errorResponse (config hello_handler) 500) 500]"
    by blast
  with h1 h2 show ?thesis unfolding e by blast
qed

text \<open>
  Claim C7.  The constructor panics exactly when the shape of the func is not valid.
  The shape is valid when there are one or two results, the first of a message type
  and the second, when there is one, of a type that implements \<open>error\<close>; there are
  one, two or three parameters, the last of a message type, and the first of three
  is the context or the request type; and, when the variant has a bound parameter
  (two parameters of which the first is neither the context nor the request type, or
  three parameters), the parameter given is not nil and its type is assignable to
  the declared one.
\<close>

theorem construction_fails_iff_shape_invalid:
  "(\<exists>e. UPSWithParameterAndConfig rf h param cfg = Inl e) \<longleftrightarrow>
     \<not> ((length (Out h) = 1 \<or> length (Out h) = 2)
        \<and> Implements rf (Out h ! 0) messageType
        \<and> (length (Out h) = 2 \<longrightarrow> Implements rf (Out h ! 1) errorType)
        \<and> (length (In h) = 1 \<or> length (In h) = 2 \<or> length (In h) = 3)
        \<and> (length (In h) = 3 \<longrightarrow> In h ! 0 = contextType \<or> In h ! 0 = requestType)
        \<and> Implements rf (last (In h)) messageType
        \<and> (length (In h) = 2 \<and> In h ! 0 \<noteq> contextType \<and> In h ! 0 \<noteq> requestType \<longrightarrow>
             (\<exists>t v. param = Some (t, v) \<and> AssignableTo rf t (In h ! 0)))
        \<and> (length (In h) = 3 \<longrightarrow> (\<exists>t v. param = Some (t, v) \<and> AssignableTo rf t (In h ! 1))))"
proof -
  have "(\<exists>e. UPSWithParameterAndConfig rf h param cfg = Inl e)
      \<longleftrightarrow> \<not> (\<exists>ups. UPSWithParameterAndConfig rf h param cfg = Inr ups)"
    by (cases "UPSWithParameterAndConfig rf h param cfg") auto
  then show ?thesis by (simp only: construct_ok_iff)
qed

text \<open>
  A func with no result is refused; the func \<open>handler\<close> of the test is accepted.
\<close>

theorem construction_fails_iff_shape_invalid_witness:
  "length (Out no_result_func) = 0
   \<and> (\<exists>e. UPSWithParameterAndConfig testingups_reflect no_result_func None DefaultConfig = Inl e)
   \<and> UPSWithParameterAndConfig testingups_reflect hello_func None DefaultConfig = Inr hello_handler"
proof -
  have o: "length (Out no_result_func) = 0" by (simp add: no_result_func_def)
  from construction_fails_iff_shape_invalid[of testingups_reflect no_result_func None DefaultConfig] o
  have "\<exists>e. UPSWithParameterAndConfig testingups_reflect no_result_func None DefaultConfig = Inl e"
    by simp
  moreover have "UPSWithParameterAndConfig testingups_reflect hello_func None DefaultConfig = Inr hello_handler"
    by (simp add: UPSWithParameterAndConfig_def check_returns_def classify_def check_parameter_def
          fixture_defs)
  ultimately show ?thesis using o by blast
qed




text \<open>
  Claim C9.  A request whose method is not POST is answered with status 405.  The
  only operation is the call of \<open>http.Error\<close>: the body is not read, the media type is
  not parsed, and the pool is as it was.  The hooks called are those of the start
  and of the end of the request (and \<open>ErrorResponse\<close>), each when it is set.
\<close>

theorem other_methods_get_405:
  assumes "Method r \<noteq> MethodPost"
  shows "\<exists>f. ServeHTTP lb ups w r = Some (f, None) \<and> statusCode f = 405
     \<and> ops f = [HttpError (errorResponse (config ups) 405) 405]
     \<and> pool f = requestObjectPool ups
     \<and> hooks f = logStartRequest (config ups) (Method r) (URL r)
                 @ errorResponse_call (config ups) 405
                 @ logEndRequest (config ups) (Method r) (URL r) 405
     \<and> (LogStartRequest (config ups) \<longrightarrow> EvLogStartRequest (Method r) (URL r) \<in> set (hooks f))
     \<and> (LogEndRequest (config ups) \<longrightarrow> EvLogEndRequest (Method r) (URL r) 405 \<in> set (hooks f))"
proof -
  note R = recovered_not_post[OF assms, where lb = lb and ups = ups]
  from ServeHTTP_error_status[OF R(1), where w = w] obtain f where
    f: "ServeHTTP lb ups w r = Some (f, None)" "statusCode f = 405"
       "pool f = pool (recovered lb ups r (frame0 ups))"
       "hooks f = hooks (recovered lb ups r (frame0 ups)) @ errorResponse_call (config ups) 405
                   @ logEndRequest (config ups) (Method r) (URL r) 405"
       "ops f = ops (recovered lb ups r (frame0 ups)) @ [HttpError (errorResponse (config ups) 405) 405]"
    by auto
  have h: "hooks f = logStartRequest (config ups) (Method r) (URL r)
                 @ errorResponse_call (config ups) 405
                 @ logEndRequest (config ups) (Method r) (URL r) 405"
    using f(4) R(4) by simp
  have s: "LogStartRequest (config ups) \<longrightarrow> EvLogStartRequest (Method r) (URL r) \<in> set (hooks f)"
    unfolding h by (simp add: logStartRequest_def)
  have e: "LogEndRequest (config ups) \<longrightarrow> EvLogEndRequest (Method r) (URL r) 405 \<in> set (hooks f)"
    unfolding h by (simp add: logEndRequest_def)
  from f(1,2) f(5) f(3) R(3,5) h s e show ?thesis by simp
qed

text \<open>
  The GET request of the test.
\<close>

theorem other_methods_get_405_witness:
  "Method get_request = ''GET''
   \<and> (\<exists>f. ServeHTTP hello_lib hello_handler recorder get_request = Some (f, None) \<and> statusCode f = 405
         \<and> ops f = [HttpError [] 405]
         \<and> hooks f = [EvLogStartRequest ''GET'' ''/hello'', EvLogEndRequest ''GET'' ''/hello'' 405])"
proof -
  have g: "Method get_request = ''GET''" by (simp add: fixture_defs)
  then have h: "Method get_request \<noteq> MethodPost" by simp
  from other_methods_get_405[OF h, of hello_lib hello_handler recorder] obtain f where
    f: "ServeHTTP hello_lib hello_handler recorder get_request = Some (f, None)" "statusCode f = 405"
       "ops f = [HttpError (errorResponse (config hello_handler) 405) 405]"
       "hooks f = logStartRequest (config hello_handler) (Method get_request) (URL get_request)
                 @ errorResponse_call (config hello_handler) 405
                 @ logEndRequest (config hello_handler) (Method get_request) (URL get_request) 405"
    by blast
  from f(3) have o: "ops f = [HttpError [] 405]"
    by (simp add: errorResponse_def fixture_defs)
  from f(4) have k: "hooks f = [EvLogStartRequest ''GET'' ''/hello'', EvLogEndRequest ''GET'' ''/hello'' 405]"
    by (simp add: logStartRequest_def logEndRequest_def errorResponse_call_def fixture_defs)
  from g f(1,2) o k show ?thesis by blast
qed

text \<open>
  An error with the status 200, from a handler whose second result is declared with a
  type that can be nil, as \<open>error\<close> is: the status is 200 and the answer goes the way of
  a success.  The only call on the writer is one write of no bytes, so the response
  has the status 200, no header and no body.  \<open>ErrorResponse\<close> is not called and
  nothing is encoded.
\<close>

lemma status_coder_200_is_written_as_a_success:
  assumes "Method r = MethodPost" and "Body r = BodyData req"
    and "negotiate lb (config ups) (Header_Get (Header r) ''Content-Type'') = Accept json"
    and "unmarshal lb json req (fst (Pool_Get (requestObjectPool ups))) = (arg, None)"
    and "Call (handler ups) (call_args ups r arg) = Return2 m (Some (StatusCoderError s 200))"
    and "IsNil_panic lb (handler ups) = None"
  shows "\<exists>f. ServeHTTP lb ups w r = Some (f, None) \<and> statusCode f = 200 \<and> resp f = []
     \<and> ops f = [ReadFrom, ParseMediaType (Header_Get (Header r) ''Content-Type''),
               PoolGet (fst (Pool_Get (requestObjectPool ups))),
               if json then JsonUnmarshal req else ProtoUnmarshal req,
               CallHandler (call_args ups r arg), MessageReset arg, PoolPut (Reset lb arg),
               Write []]
     \<and> writer_ops (ops f) = [Write []]
     \<and> answer w (f, None) = \<lparr>Code = 200, HeaderMap = [], Bytes = []\<rparr>
     \<and> (\<forall>c. EvErrorResponse c \<notin> set (hooks f))"
proof -
  note R = recovered_handler_error[OF assms]
  from R(1) have "statusCode (recovered lb ups r (frame0 ups)) = 200" by simp
  from ServeHTTP_ok_empty[OF this R(2), where w = w] obtain f es where
    f: "ServeHTTP lb ups w r = Some (f, None)" "statusCode f = 200" "resp f = []"
       "hooks f = hooks (recovered lb ups r (frame0 ups)) @ es
                   @ logEndRequest (config ups) (Method r) (URL r) 200"
       "es = [] \<or> (\<exists>e. es = logError (config ups) ''w.Write'' e)"
       "ops f = ops (recovered lb ups r (frame0 ups)) @ [Write []]"
    by blast
  have o: "ops f = [ReadFrom, ParseMediaType (Header_Get (Header r) ''Content-Type''),
               PoolGet (fst (Pool_Get (requestObjectPool ups))),
               if json then JsonUnmarshal req else ProtoUnmarshal req,
               CallHandler (call_args ups r arg), MessageReset arg, PoolPut (Reset lb arg),
               Write []]"
    using f(6) R(5) by (simp add: before_call_ops_def)
  then have wo: "writer_ops (ops f) = [Write []]" by simp
  then have a: "answer w (f, None) = \<lparr>Code = 200, HeaderMap = [], Bytes = []\<rparr>"
    by (simp add: answer_writer_ops NewRecorder_def)
  have "EvErrorResponse c \<notin> set (hooks f)" for c
    using f(5) unfolding f(4) R(4) before_call_hooks_def
    by (auto simp: no_ErrorResponse_in_logs)
  with f(1,2,3) o wo a show ?thesis by blast
qed

text \<open>
  Claim C10.  The claim is that an error whose \<open>StatusCode()\<close> is 200 is answered
  with the status 200 and an empty body, the way of a success.  The code breaks it
  for a handler whose second result is declared as \<open>testError\<close>, an \<open>int\<close>, and not
  as \<open>error\<close>: line 203 accepts every type that implements \<open>error\<close>, and line 358
  calls \<open>IsNil\<close> on the second result, which panics on a value that cannot be nil.
  The constructor accepts the func; on the request for the name \<open>OK\<close> it returns the
  \<open>testError\<close> 200; the panic of \<open>IsNil\<close> is logged, and the request is answered with
  \<open>http.Error\<close> and the status 500, with a newline as body.  The same request, served
  by the handler of the test that is declared to return \<open>error\<close> and returns the same
  value, is answered with the status 200.
\<close>

theorem declared_testError_with_status_200_is_answered_500:
  "UPSWithParameterAndConfig testingups_reflect test_error_func None DefaultConfig = Inr test_error_handler
   \<and> Call (handler test_error_handler) [MsgVal (HelloRequest ''OK'')]
       = Return2 NilHello (Some (StatusCoderError ''200'' 200))
   \<and> map_option snd (ServeHTTP hello_lib test_error_handler recorder ok_error_request) = Some None
   \<and> map_option (statusCode \<circ> fst) (ServeHTTP hello_lib test_error_handler recorder ok_error_request)
       = Some 500
   \<and> map_option (hooks \<circ> fst) (ServeHTTP hello_lib test_error_handler recorder ok_error_request)
       = Some [EvLogStartRequest ''POST'' ''/hello'', EvLogRequestJSON ''{\"name\":\"OK\"}'',
               EvLogRequestMessage (HelloRequest ''OK''),
               EvLogPanic ''reflect: call of reflect.Value.IsNil on int Value'',
               EvLogEndRequest ''POST'' ''/hello'' 500]
   \<and> map_option (answer recorder) (ServeHTTP hello_lib test_error_handler recorder ok_error_request)
       = Some \<lparr>Code = 500,
               HeaderMap = [(''X-Content-Type-Options'', ''nosniff''),
                            (''Content-Type'', ''text/plain; charset=utf-8'')],
               Bytes = [CHR 0x0A]\<rparr>
   \<and> map_option (answer recorder) (ServeHTTP hello_lib error_handler recorder ok_error_request)
       = Some \<lparr>Code = 200, HeaderMap = [], Bytes = []\<rparr>"
proof -
  have c: "UPSWithParameterAndConfig testingups_reflect test_error_func None DefaultConfig
             = Inr test_error_handler"
    by (simp add: UPSWithParameterAndConfig_def check_returns_def classify_def check_parameter_def
          fixture_defs)
  have r: "Call (handler test_error_handler) [MsgVal (HelloRequest ''OK'')]
       = Return2 NilHello (Some (StatusCoderError ''200'' 200))"
    by (simp add: fixture_defs)
  note R = recovered_IsNil_panics[OF test_error_ok_request_path]
  from ServeHTTP_error_status[OF R(1), where w = recorder] obtain f where
    f: "ServeHTTP hello_lib test_error_handler recorder ok_error_request = Some (f, None)"
       "statusCode f = 500"
       "hooks f = hooks (recovered hello_lib test_error_handler ok_error_request (frame0 test_error_handler))
                   @ errorResponse_call (config test_error_handler) 500
                   @ logEndRequest (config test_error_handler) (Method ok_error_request)
                       (URL ok_error_request) 500"
       "ops f = ops (recovered hello_lib test_error_handler ok_error_request (frame0 test_error_handler))
                 @ [HttpError (errorResponse (config test_error_handler) 500) 500]"
    by auto
  from f(3) have h: "hooks f =
      [EvLogStartRequest ''POST'' ''/hello'', EvLogRequestJSON ''{\"name\":\"OK\"}'',
       EvLogRequestMessage (HelloRequest ''OK''),
       EvLogPanic ''reflect: call of reflect.Value.IsNil on int Value'',
       EvLogEndRequest ''POST'' ''/hello'' 500]"
    unfolding R(4)
    by (simp add: before_call_hooks_def logStartRequest_def logRequestJSON_def logRequestMessage_def
          logPanic_def logEndRequest_def errorResponse_call_def fixture_defs)
  from f(4) have "writer_ops (ops f) = [HttpError [] 500]"
    unfolding R(5) by (simp add: before_call_ops_def errorResponse_def fixture_defs)
  from answer_error[OF this, of recorder None]
  have a: "answer recorder (f, None) =
      \<lparr>Code = 500,
       HeaderMap = [(''X-Content-Type-Options'', ''nosniff''),
                    (''Content-Type'', ''text/plain; charset=utf-8'')],
       Bytes = [CHR 0x0A]\<rparr>"
    by (simp add: recorder_def)
  from status_coder_200_is_written_as_a_success[OF ok_error_request_path, of recorder] obtain g where
    g: "ServeHTTP hello_lib error_handler recorder ok_error_request = Some (g, None)"
       "answer recorder (g, None) = \<lparr>Code = 200, HeaderMap = [], Bytes = []\<rparr>"
    by blast
  from c r f(1,2) h a g show ?thesis by simp
qed

end
